theory Spec2Isabelle
  imports Main
begin

section \<open>Data model of the Status cog (src/status/status.py)\<close>

text \<open>
  The cog polls the feeds of \<open>FEED_URLS\<close>, decides with \<open>check_real_update\<close>
  whether the newest entry of a feed is a real update, and sends a real update to every
  channel registered for the service.  The Python dictionaries are modelled as follows:
  \<^item> a "feeddict" (the dictionary built by \<open>process_feed\<close>) is a record; its
    \<open>"fields"\<close> entry is a list of name/value records;
  \<^item> the \<open>"time"\<close> entry holds a \<open>datetime\<close> when the feeddict is built and a float
    (the epoch number) after \<open>check_real_update\<close> has accepted it; the two Python types
    are the two constructors of \<open>pytime\<close>, over type parameters for the instants and the
    floats, with \<open>datetime.timestamp\<close> a parameter of the environment;
  \<^item> feeddicts are mutable objects shared between the caller, \<open>check_real_update\<close> and
    \<open>send_updated_feed\<close>: they live in a store \<open>objs\<close> from addresses to feeddicts,
    and a variable holding a feeddict holds its address;
  \<^item> the three Config groups (\<open>etags\<close>, \<open>feed_store\<close>, per guild \<open>feeds\<close>) are maps
    from the service name; the result of \<open>all_guilds()\<close> is an association list in
    iteration order;
  \<^item> every effect that leaves the process (a fetch, a log line, a Config write of the
    feed store, a message sent to a channel) is appended to a trace.

  The file src/status/core/status.py is the entry class of a later version of the cog,
  whose update loop lives in modules of its own; it is not modelled here.
\<close>

type_synonym service = string
type_synonym addr = nat

record field =
  f_name :: string
  f_value :: string

datatype ('dt, 'fl) pytime = Datetime 'dt | EpochFloat 'fl

record ('dt, 'fl) feeddict =
  d_fields :: "field list"
  d_time :: "('dt, 'fl) pytime"
  d_title :: string
  d_desc :: string
  d_friendlyname :: string
  d_colour :: int

text \<open>The exception classes that the code raises, catches or lets through.\<close>

datatype exn =
    KeyError
  | TypeError
  | AttributeError
  | IndexError
  | ValueError
  | ConnectionRefusedError
  | URLError
  | Forbidden
  | HTTPException

text \<open>
  The value bound to \<open>old_fields\<close> in \<open>check_real_update\<close> is either the stored list
  or the string \<open>"hello"\<close>; \<open>new_fields\<close> is always a list.  Python's \<open>==\<close> between
  a string and a list is False, which the two constructors reproduce.
\<close>

datatype pyval = PyStr string | PyFields "field list"

text \<open>
  A stored destination of one guild for one service: a list of channel ids, or the legacy
  shape, a single integer.
\<close>

datatype feedval = ChanList "int list" | LegacyInt int

type_synonym feeds = "service \<rightharpoonup> feedval"

text \<open>What \<open>bot.get_channel\<close> returns when the id resolves: a guild text channel.\<close>

record channel =
  chan_id :: int
  chan_guild_id :: int

text \<open>
  The \<open>discord.Embed\<close> built by \<open>send_updated_feed\<close>; \<open>e_timestamp\<close> is the value
  given as \<open>timestamp=\<close>, None when the embed is built without one.
\<close>

record ('dt, 'fl) embed =
  e_title :: string
  e_description :: string
  e_timestamp :: "('dt, 'fl) pytime option"
  e_colour :: int
  e_fields :: "field list"

datatype ('dt, 'fl) message = EmbedMsg "('dt, 'fl) embed" | TextMsg string

text \<open>The result of \<open>feedparser.parse\<close>; the attributes \<open>status\<close> and \<open>etag\<close> may be absent.\<close>

record response =
  r_status :: "int option"
  r_etag :: "string option"
  r_document :: string

datatype ('dt, 'fl) event =
    Fetch string "string option"
  | LogOldFields pyval
  | LogNewFields pyval
  | LogGhost service
  | LogFeedDict service "('dt, 'fl) feeddict"
  | LogSending service nat
  | LogDone
  | LogNoUpdate service
  | LogUnableToConnect service
  | LogTimestampError "('dt, 'fl) pytime"
  | LogUnableToSend int int
  | SaveFeedStore service "('dt, 'fl) feeddict"
  | ChannelSend int "('dt, 'fl) message"

record ('dt, 'fl) world =
  objs :: "addr \<Rightarrow> ('dt, 'fl) feeddict"
  next_addr :: addr
  etags :: "service \<rightharpoonup> string"
  feed_store :: "service \<rightharpoonup> ('dt, 'fl) feeddict"
  guilds :: "(int \<times> feeds) list"
  trace :: "('dt, 'fl) event list"

text \<open>
  The collaborators outside the file: the library calls and the helper module
  \<open>rsshelper\<close>.  Each is a function of its arguments that returns a value or raises.
\<close>

record ('dt, 'fl) env =
  timestamp :: "'dt \<Rightarrow> 'fl"
  feedparser_parse :: "string \<Rightarrow> string option \<Rightarrow> exn + response"
  helper_process_feed :: "service \<Rightarrow> response \<Rightarrow> exn + ('dt, 'fl) feeddict"
  get_channel :: "int \<Rightarrow> channel option"
  embed_requested :: "channel option \<Rightarrow> exn + bool"
  embed_ctor :: "('dt, 'fl) pytime \<Rightarrow> exn option"
  channel_send :: "channel \<Rightarrow> ('dt, 'fl) message \<Rightarrow> exn option"
  re_sub :: "string \<Rightarrow> string"

definition FEED_URLS :: "(service \<times> string) list" where
  "FEED_URLS =
    [(''discord'', ''https://discordstatus.com/history.atom''),
     (''github'', ''https://www.githubstatus.com/history.atom''),
     (''cloudflare'', ''https://www.cloudflarestatus.com/history.atom''),
     (''python'', ''https://status.python.org/history.atom''),
     (''twitter_api'', ''https://api.twitterstat.us/history.atom''),
     (''statuspage'', ''https://metastatuspage.com/history.atom''),
     (''zoom'', ''https://status.zoom.us/history.atom''),
     (''oracle_cloud'', ''https://ocistatus.oraclecloud.com/history.atom'')]"

definition emit :: "('dt, 'fl) event \<Rightarrow> ('dt, 'fl) world \<Rightarrow> ('dt, 'fl) world" where
  "emit ev w = w\<lparr>trace := trace w @ [ev]\<rparr>"

section \<open>check_real_update\<close>

text \<open>
  \<open>feed_store[service]["fields"]\<close> raises KeyError when the service has no entry, and
  \<open>old_fields\<close> is then the string \<open>"hello"\<close>.  On a difference the \<open>"time"\<close> entry of
  the caller's feeddict is overwritten in place with \<open>.timestamp()\<close> (a float has no such
  method: AttributeError), the same object is put into the store, and the store is
  written to Config when the \<open>async with\<close> block is left.
\<close>

definition check_real_update ::
  "('dt, 'fl) env \<Rightarrow> service \<Rightarrow> addr \<Rightarrow> ('dt, 'fl) world \<Rightarrow> (exn + bool) \<times> ('dt, 'fl) world" where
  "check_real_update env service feeddict w =
    (let old_fields = (case feed_store w service of
                         None \<Rightarrow> PyStr ''hello''
                       | Some old \<Rightarrow> PyFields (d_fields old));
         new_fields = PyFields (d_fields (objs w feeddict));
         w1 = emit (LogNewFields new_fields) (emit (LogOldFields old_fields) w)
     in if old_fields = new_fields then (Inr False, w1)
        else (case d_time (objs w1 feeddict) of
                EpochFloat x \<Rightarrow> (Inl AttributeError, w1)
              | Datetime t \<Rightarrow>
                  let d' = (objs w1 feeddict)\<lparr>d_time := EpochFloat (timestamp env t)\<rparr>;
                      w2 = w1\<lparr>objs := (objs w1)(feeddict := d'),
                              feed_store := (feed_store w1)(service \<mapsto> d')\<rparr>
                  in (Inr True, emit (SaveFeedStore service d') w2)))"

section \<open>process_feed and get_channels\<close>

text \<open>
  \<open>process_feed\<close> hands its arguments to \<open>rsshelper.process_feed\<close>, which builds a new
  dictionary; the new object gets the next free address.
\<close>

definition process_feed ::
  "('dt, 'fl) env \<Rightarrow> service \<Rightarrow> response \<Rightarrow> ('dt, 'fl) world \<Rightarrow> (exn + addr) \<times> ('dt, 'fl) world" where
  "process_feed env service feedparser w =
    (case helper_process_feed env service feedparser of
       Inl e \<Rightarrow> (Inl e, w)
     | Inr d \<Rightarrow> (Inr (next_addr w),
                 w\<lparr>objs := (objs w)(next_addr w := d), next_addr := Suc (next_addr w)\<rparr>))"

text \<open>
  The loop of \<open>get_channels\<close> over \<open>feeds.items()\<close>: a guild without the service is
  skipped (KeyError), a list is appended with \<open>extend\<close>, and a single integer, on which
  \<open>extend\<close> raises TypeError, with \<open>append\<close>.
\<close>

fun get_channels_loop :: "(int \<times> feeds) list \<Rightarrow> service \<Rightarrow> int list \<Rightarrow> int list" where
  "get_channels_loop [] target_service channels = channels"
| "get_channels_loop (server # rest) target_service channels =
     (case snd server target_service of
        None \<Rightarrow> get_channels_loop rest target_service channels
      | Some (ChanList to_append) \<Rightarrow> get_channels_loop rest target_service (channels @ to_append)
      | Some (LegacyInt to_append) \<Rightarrow> get_channels_loop rest target_service (channels @ [to_append]))"

definition get_channels :: "('dt, 'fl) world \<Rightarrow> service \<Rightarrow> int list" where
  "get_channels w service = get_channels_loop (guilds w) service []"

section \<open>send_updated_feed\<close>

text \<open>
  The block \<open>try: await channel.send(...) except (Forbidden, AttributeError): log.debug(...)\<close>,
  which both branches of \<open>send_updated_feed\<close> end with.  When \<open>get_channel\<close> returned
  None, \<open>channel.send\<close> raises AttributeError, which the handler catches; the handler's
  message reads \<open>channel.id\<close>, which raises AttributeError again, out of the handler.
\<close>

definition try_send ::
  "('dt, 'fl) env \<Rightarrow> channel option \<Rightarrow> ('dt, 'fl) message \<Rightarrow> ('dt, 'fl) world
     \<Rightarrow> exn option \<times> ('dt, 'fl) world" where
  "try_send env channel msg w =
    (case channel of
       None \<Rightarrow> (Some AttributeError, w)
     | Some c \<Rightarrow>
         let w1 = emit (ChannelSend (chan_id c) msg) w in
         (case channel_send env c msg of
            None \<Rightarrow> (None, w1)
          | Some e \<Rightarrow>
              if e = Forbidden \<or> e = AttributeError
              then (None, emit (LogUnableToSend (chan_id c) (chan_guild_id c)) w1)
              else (Some e, w1)))"

text \<open>
  The embed is built with the timestamp; when the constructor raises TypeError, a warning
  is logged and the embed is built without it.  Any other exception leaves the function.
\<close>

definition build_embed ::
  "('dt, 'fl) env \<Rightarrow> ('dt, 'fl) feeddict \<Rightarrow> ('dt, 'fl) world
     \<Rightarrow> (exn + ('dt, 'fl) embed) \<times> ('dt, 'fl) world" where
  "build_embed env d w =
    (case embed_ctor env (d_time d) of
       None \<Rightarrow> (Inr \<lparr>e_title = d_title d, e_description = d_desc d,
                     e_timestamp = Some (d_time d), e_colour = d_colour d, e_fields = []\<rparr>, w)
     | Some e \<Rightarrow>
         if e = TypeError
         then (Inr \<lparr>e_title = d_title d, e_description = d_desc d,
                     e_timestamp = None, e_colour = d_colour d, e_fields = []\<rparr>,
               emit (LogTimestampError (d_time d)) w)
         else (Inl e, w))"

definition add_field :: "('dt, 'fl) embed \<Rightarrow> field \<Rightarrow> ('dt, 'fl) embed" where
  "add_field em f = em\<lparr>e_fields := e_fields em @ [f]\<rparr>"

definition text_message :: "('dt, 'fl) feeddict \<Rightarrow> string" where
  "text_message d =
     foldl (\<lambda>msg i. msg @ ''**'' @ f_name i @ ''**'' @ [CHR 0x0A] @ f_value i @ [CHR 0x0A])
       (''**'' @ d_title d @ ''**'' @ [CHR 0x0A] @ d_desc d @ [CHR 0x0A, CHR 0x0A])
       (rev (d_fields d))"

definition send_updated_feed ::
  "('dt, 'fl) env \<Rightarrow> addr \<Rightarrow> int \<Rightarrow> ('dt, 'fl) world \<Rightarrow> exn option \<times> ('dt, 'fl) world" where
  "send_updated_feed env feeddict channel_id w =
    (let channel = get_channel env channel_id in
     case embed_requested env channel of
       Inl e \<Rightarrow> (Some e, w)
     | Inr True \<Rightarrow>
         (case build_embed env (objs w feeddict) w of
            (Inl e, w1) \<Rightarrow> (Some e, w1)
          | (Inr em, w1) \<Rightarrow>
              try_send env channel
                (EmbedMsg (foldl add_field em (rev (d_fields (objs w1 feeddict))))) w1)
     | Inr False \<Rightarrow>
         try_send env channel (TextMsg (re_sub env (text_message (objs w feeddict)))) w)"

text \<open>The loop \<open>for channel in channels: await self.send_updated_feed(feeddict, channel)\<close>.\<close>

fun send_all ::
  "('dt, 'fl) env \<Rightarrow> addr \<Rightarrow> int list \<Rightarrow> ('dt, 'fl) world \<Rightarrow> exn option \<times> ('dt, 'fl) world" where
  "send_all env feeddict [] w = (None, w)"
| "send_all env feeddict (channel # channels) w =
     (case send_updated_feed env feeddict channel w of
        (Some e, w1) \<Rightarrow> (Some e, w1)
      | (None, w1) \<Rightarrow> send_all env feeddict channels w1)"

section \<open>actually_check_updates\<close>

text \<open>
  The inner \<open>try\<close> of the loop body.  \<open>etags[feed[0]]\<close> is evaluated before the call, so
  a service without an etag raises KeyError without a fetch; the handler fetches without
  an etag and then stores the placeholder \<open>"hello"\<close>.
\<close>

definition fetch ::
  "('dt, 'fl) env \<Rightarrow> service \<times> string \<Rightarrow> ('dt, 'fl) world
     \<Rightarrow> (exn + response) \<times> ('dt, 'fl) world" where
  "fetch env feed w =
    (case (case etags w (fst feed) of
             None \<Rightarrow> (Inl KeyError, w)
           | Some etag \<Rightarrow> (feedparser_parse env (snd feed) (Some etag),
                           emit (Fetch (snd feed) (Some etag)) w)) of
       (Inr response, w1) \<Rightarrow> (Inr response, w1)
     | (Inl e, w1) \<Rightarrow>
         if e = KeyError
         then (case feedparser_parse env (snd feed) None of
                 Inl e2 \<Rightarrow> (Inl e2, emit (Fetch (snd feed) None) w1)
               | Inr response \<Rightarrow>
                   (Inr response,
                    (emit (Fetch (snd feed) None) w1)\<lparr>etags := (etags w1)(fst feed \<mapsto> ''hello'')\<rparr>))
         else (Inl e, w1))"

text \<open>
  Lines 91 to 96: the accepted feeddict is logged, the channels are read, and the
  feeddict is sent to each.
\<close>

definition fan_out ::
  "('dt, 'fl) env \<Rightarrow> service \<Rightarrow> addr \<Rightarrow> ('dt, 'fl) world \<Rightarrow> exn option \<times> ('dt, 'fl) world" where
  "fan_out env service feeddict w =
    (let w1 = emit (LogFeedDict service (objs w feeddict)) w;
         channels = get_channels w1 service;
         w2 = emit (LogSending service (length channels)) w1
     in case send_all env feeddict channels w2 of
          (Some e, w3) \<Rightarrow> (Some e, w3)
        | (None, w3) \<Rightarrow> (None, emit LogDone w3))"

text \<open>
  The statements inside the outer \<open>try\<close>, with the exception that leaves them, if any.
  \<open>response.status\<close> and \<open>response.etag\<close> raise AttributeError when the attribute is
  absent.
\<close>

definition try_body ::
  "('dt, 'fl) env \<Rightarrow> service \<times> string \<Rightarrow> ('dt, 'fl) world \<Rightarrow> exn option \<times> ('dt, 'fl) world" where
  "try_body env feed w =
    (case fetch env feed w of
       (Inl e, w1) \<Rightarrow> (Some e, w1)
     | (Inr response, w1) \<Rightarrow>
         (case r_status response of
            None \<Rightarrow> (Some AttributeError, w1)
          | Some status \<Rightarrow>
              if status = 200
              then (case r_etag response of
                      None \<Rightarrow> (Some AttributeError, w1)
                    | Some etag \<Rightarrow>
                        (case process_feed env (fst feed) response
                                (w1\<lparr>etags := (etags w1)(fst feed \<mapsto> etag)\<rparr>) of
                           (Inl e, w2) \<Rightarrow> (Some e, w2)
                         | (Inr feeddict, w2) \<Rightarrow>
                             (case check_real_update env (fst feed) feeddict w2 of
                                (Inl e, w3) \<Rightarrow> (Some e, w3)
                              | (Inr False, w3) \<Rightarrow> (None, emit (LogGhost (fst feed)) w3)
                              | (Inr True, w3) \<Rightarrow> fan_out env (fst feed) feeddict w3)))
              else (None, emit (LogNoUpdate (fst feed)) w1)))"

text \<open>
  The handlers of the outer \<open>try\<close>: a connection failure is logged, a KeyError resets the
  etag of the service, and every other exception leaves the loop.
\<close>

definition loop_body ::
  "('dt, 'fl) env \<Rightarrow> service \<times> string \<Rightarrow> ('dt, 'fl) world \<Rightarrow> exn option \<times> ('dt, 'fl) world" where
  "loop_body env feed w =
    (case try_body env feed w of
       (None, w1) \<Rightarrow> (None, w1)
     | (Some e, w1) \<Rightarrow>
         if e = ConnectionRefusedError \<or> e = URLError
         then (None, emit (LogUnableToConnect (fst feed)) w1)
         else if e = KeyError
         then (None, w1\<lparr>etags := (etags w1)(fst feed \<mapsto> ''hello'')\<rparr>)
         else (Some e, w1))"

fun for_feeds ::
  "('dt, 'fl) env \<Rightarrow> (service \<times> string) list \<Rightarrow> ('dt, 'fl) world
     \<Rightarrow> exn option \<times> ('dt, 'fl) world" where
  "for_feeds env [] w = (None, w)"
| "for_feeds env (feed # rest) w =
     (case loop_body env feed w of
        (Some e, w1) \<Rightarrow> (Some e, w1)
      | (None, w1) \<Rightarrow> for_feeds env rest w1)"

definition actually_check_updates ::
  "('dt, 'fl) env \<Rightarrow> ('dt, 'fl) world \<Rightarrow> exn option \<times> ('dt, 'fl) world" where
  "actually_check_updates env w = for_feeds env FEED_URLS w"

section \<open>statusset add and statusset remove\<close>

text \<open>
  The commands work on the \<open>feeds\<close> dictionary of the guild they are run in.  The
  channel argument carries its id and the two permissions the command asks for.  What the
  command answers with \<open>ctx.send\<close> is its reply; an exception that leaves the command
  leaves the \<open>async with\<close> block too, which writes the dictionary as it then is.
\<close>

record text_channel =
  tc_id :: int
  tc_send_messages :: bool
  tc_embed_links :: bool

datatype reply =
    NotValidService
  | NoSendPermission int
  | NoEmbedPermission int
  | AlreadyReceives int service
  | DoneAdd int service
  | NotSending service int
  | Removed service int

text \<open>\<open>str.lower\<close> on the ASCII letters; the service names are ASCII.\<close>

definition lower_char :: "char \<Rightarrow> char" where
  "lower_char c =
     (case map_of (zip ''ABCDEFGHIJKLMNOPQRSTUVWXYZ'' ''abcdefghijklmnopqrstuvwxyz'') c of
        None \<Rightarrow> c
      | Some l \<Rightarrow> l)"

definition py_lower :: "string \<Rightarrow> string" where
  "py_lower s = map lower_char s"

definition statusset_add ::
  "string \<Rightarrow> text_channel \<Rightarrow> feeds \<Rightarrow> (exn + reply) \<times> feeds" where
  "statusset_add service0 channel feeds =
    (let service = py_lower service0 in
     if service \<notin> set (map fst FEED_URLS) then (Inr NotValidService, feeds)
     else if \<not> tc_send_messages channel then (Inr (NoSendPermission (tc_id channel)), feeds)
     else if \<not> tc_embed_links channel then (Inr (NoEmbedPermission (tc_id channel)), feeds)
     else
       (case (case feeds service of
                None \<Rightarrow> Inr False
              | Some (LegacyInt k) \<Rightarrow> Inl TypeError
              | Some (ChanList l) \<Rightarrow> Inr (tc_id channel \<in> set l)) of
          Inl e \<Rightarrow> (Inl e, feeds)
        | Inr True \<Rightarrow> (Inr (AlreadyReceives (tc_id channel) service), feeds)
        | Inr False \<Rightarrow>
            (let feeds1 = (case feeds service of
                             None \<Rightarrow> feeds(service \<mapsto> ChanList [])
                           | Some (LegacyInt k) \<Rightarrow> feeds(service \<mapsto> ChanList [k])
                           | Some (ChanList l) \<Rightarrow> feeds)
             in case feeds1 service of
                  None \<Rightarrow> (Inl KeyError, feeds1)
                | Some (LegacyInt k) \<Rightarrow> (Inl AttributeError, feeds1)
                | Some (ChanList l) \<Rightarrow>
                    (Inr (DoneAdd (tc_id channel) service),
                     feeds1(service \<mapsto> ChanList (l @ [tc_id channel]))))))"


section \<open>Observations on a run\<close>

text \<open>The channels that \<open>channel.send\<close> was called on, in the order of the calls.\<close>

definition sent_to :: "('dt, 'fl) event list \<Rightarrow> int list" where
  "sent_to evs = concat (map (\<lambda>ev. case ev of ChannelSend c m \<Rightarrow> [c] | _ \<Rightarrow> []) evs)"

text \<open>The addresses that \<open>feedparser.parse\<close> was called on.\<close>

definition fetched :: "('dt, 'fl) event list \<Rightarrow> string list" where
  "fetched evs = concat (map (\<lambda>ev. case ev of Fetch url etag \<Rightarrow> [url] | _ \<Rightarrow> []) evs)"

text \<open>
  The exceptions raised inside the outer \<open>try\<close> during one run of the loop over the
  feeds, each with the service it was raised for, in order, up to the one that ends the
  loop.
\<close>

fun raised ::
  "('dt, 'fl) env \<Rightarrow> (service \<times> string) list \<Rightarrow> ('dt, 'fl) world
     \<Rightarrow> (service \<times> exn) list" where
  "raised env [] w = []"
| "raised env (feed # rest) w =
     (case fst (try_body env feed w) of None \<Rightarrow> [] | Some e \<Rightarrow> [(fst feed, e)]) @
     (case loop_body env feed w of
        (Some e, w1) \<Rightarrow> []
      | (None, w1) \<Rightarrow> raised env rest w1)"

text \<open>What one guild has stored for a service, read as a list of channel ids.\<close>

definition stored_destinations :: "feeds \<Rightarrow> service \<Rightarrow> int list" where
  "stored_destinations feeds service =
     (case feeds service of
        None \<Rightarrow> []
      | Some (ChanList l) \<Rightarrow> l
      | Some (LegacyInt k) \<Rightarrow> [k])"

text \<open>
  What an event says about the \<open>"time"\<close> entry of the feeddict it was built from: an
  embed carries it as its timestamp or has none, and the two log lines print it.
\<close>

definition reads_time :: "('dt, 'fl) pytime \<Rightarrow> ('dt, 'fl) event \<Rightarrow> bool" where
  "reads_time t ev =
     (case ev of
        ChannelSend c (EmbedMsg em) \<Rightarrow> e_timestamp em = None \<or> e_timestamp em = Some t
      | LogTimestampError t' \<Rightarrow> t' = t
      | LogFeedDict s d \<Rightarrow> d_time d = t
      | _ \<Rightarrow> True)"

text \<open>The timestamps of the embeds that were sent, in the order of the calls.\<close>

definition sent_timestamps :: "('dt, 'fl) event list \<Rightarrow> ('dt, 'fl) pytime option list" where
  "sent_timestamps evs =
     concat (map (\<lambda>ev. case ev of ChannelSend c (EmbedMsg em) \<Rightarrow> [e_timestamp em] | _ \<Rightarrow> []) evs)"

section \<open>Concrete inputs\<close>

text \<open>
  A feed entry, a response and collaborators that all succeed, over instants and floats
  numbered by natural numbers; the theorems below are instantiated on them.
\<close>

definition field0 :: field where
  "field0 = \<lparr>f_name = ''Resolved - 5 minutes ago'', f_value = ''This incident has been resolved.''\<rparr>"

definition feeddict0 :: "(nat, nat) feeddict" where
  "feeddict0 =
     \<lparr>d_fields = [field0], d_time = Datetime 1600000000,
      d_title = ''Outage - Discord Status Update'',
      d_desc = ''Incident page: https://stspg.io/x'',
      d_friendlyname = ''Discord'', d_colour = 7506394\<rparr>"

definition response0 :: response where
  "response0 = \<lparr>r_status = Some 200, r_etag = Some ''etag-1'', r_document = ''feed''\<rparr>"

definition env0 :: "(nat, nat) env" where
  "env0 =
     \<lparr>timestamp = (\<lambda>t. t),
      feedparser_parse = (\<lambda>url etag. Inr response0),
      helper_process_feed = (\<lambda>service r. Inr feeddict0),
      get_channel = (\<lambda>i. Some \<lparr>chan_id = i, chan_guild_id = 1\<rparr>),
      embed_requested = (\<lambda>c. Inr True),
      embed_ctor = (\<lambda>t. case t of Datetime x \<Rightarrow> None | EpochFloat x \<Rightarrow> Some TypeError),
      channel_send = (\<lambda>c m. None),
      re_sub = (\<lambda>s. s)\<rparr>"

definition world0 :: "(nat, nat) world" where
  "world0 =
     \<lparr>objs = (\<lambda>a. feeddict0), next_addr = 0, etags = Map.empty, feed_store = Map.empty,
      guilds = [(1, [''discord'' \<mapsto> ChanList [1, 2, 3]])], trace = []\<rparr>"

definition feed0 :: "service \<times> string" where
  "feed0 = (''discord'', ''https://discordstatus.com/history.atom'')"

definition world_ghost :: "(nat, nat) world" where
  "world_ghost = world0\<lparr>feed_store := [''discord'' \<mapsto> feeddict0\<lparr>d_time := EpochFloat 1599999000\<rparr>]\<rparr>"

text \<open>An embed constructor that takes a float as its timestamp.\<close>

definition env_float_ok :: "(nat, nat) env" where
  "env_float_ok = env0\<lparr>embed_ctor := (\<lambda>t. None)\<rparr>"

text \<open>
  The first feed cannot be reached and the entries of the others lack a key that
  \<open>process_feed\<close> reads.
\<close>

definition env_unreachable :: "(nat, nat) env" where
  "env_unreachable =
     env0\<lparr>feedparser_parse :=
              (\<lambda>url etag. if url = ''https://discordstatus.com/history.atom''
                          then Inl URLError else Inr response0),
          helper_process_feed := (\<lambda>service r. Inl KeyError)\<rparr>"

text \<open>Every feed answers 200 with a document that has no entry.\<close>

definition env_no_entries :: "(nat, nat) env" where
  "env_no_entries = env0\<lparr>helper_process_feed := (\<lambda>service r. Inl IndexError)\<rparr>"

text \<open>The channel 2 has been deleted.\<close>

definition env_deleted_channel :: "(nat, nat) env" where
  "env_deleted_channel =
     env0\<lparr>get_channel := (\<lambda>i. if i = 2 then None else Some \<lparr>chan_id = i, chan_guild_id = 1\<rparr>)\<rparr>"

text \<open>Every feed answers 304.\<close>

definition env_not_modified :: "(nat, nat) env" where
  "env_not_modified =
     env0\<lparr>feedparser_parse := (\<lambda>url etag. Inr (response0\<lparr>r_status := Some 304\<rparr>))\<rparr>"

text \<open>Two channel arguments, and what a guild or two may have stored.\<close>

definition channel7 :: text_channel where
  "channel7 = \<lparr>tc_id = 7, tc_send_messages = True, tc_embed_links = True\<rparr>"

definition channel2 :: text_channel where
  "channel2 = \<lparr>tc_id = 2, tc_send_messages = True, tc_embed_links = True\<rparr>"

definition feeds_list :: feeds where
  "feeds_list = [''github'' \<mapsto> ChanList [1, 2, 3]]"


definition world_two_guilds :: "(nat, nat) world" where
  "world_two_guilds =
     world0\<lparr>guilds := [(1, [''github'' \<mapsto> ChanList [5]]), (2, [''github'' \<mapsto> ChanList [5]])]\<rparr>"

definition feed1 :: "service \<times> string" where
  "feed1 = (''github'', ''https://www.githubstatus.com/history.atom'')"

text \<open>The document of the second feed has no entry; the other feeds are in order.\<close>

definition env_second_fails :: "(nat, nat) env" where
  "env_second_fails =
     env0\<lparr>helper_process_feed :=
              (\<lambda>service r. if service = ''github'' then Inl IndexError else Inr feeddict0)\<rparr>"

section \<open>Properties of check_real_update\<close>

lemma cru_ghost_iff:
  "fst (check_real_update env service a w) = Inr False \<longleftrightarrow>
     (\<exists>old. feed_store w service = Some old \<and> d_fields old = d_fields (objs w a))"
  by (auto simp: check_real_update_def emit_def Let_def split: option.splits pytime.splits)

lemma cru_datetime:
  "d_time (objs w a) = Datetime t \<Longrightarrow>
   fst (check_real_update env service a w) =
     Inr (\<not> (\<exists>old. feed_store w service = Some old \<and> d_fields old = d_fields (objs w a)))"
  by (auto simp: check_real_update_def emit_def Let_def split: option.splits pytime.splits)

lemma cru_accept:
  assumes "fst (check_real_update env service a w) = Inr True"
  shows "\<exists>t. d_time (objs w a) = Datetime t \<and>
     snd (check_real_update env service a w) =
       w\<lparr>objs := (objs w)(a := (objs w a)\<lparr>d_time := EpochFloat (timestamp env t)\<rparr>),
         feed_store := (feed_store w)(service \<mapsto> (objs w a)\<lparr>d_time := EpochFloat (timestamp env t)\<rparr>),
         trace := trace w @
           [LogOldFields (case feed_store w service of None \<Rightarrow> PyStr ''hello''
                          | Some old \<Rightarrow> PyFields (d_fields old)),
            LogNewFields (PyFields (d_fields (objs w a))),
            SaveFeedStore service ((objs w a)\<lparr>d_time := EpochFloat (timestamp env t)\<rparr>)]\<rparr>"
  using assms
  by (auto simp: check_real_update_def emit_def Let_def split: option.splits pytime.splits if_splits)

lemma cru_not_accept:
  assumes "fst (check_real_update env service a w) \<noteq> Inr True"
  shows "snd (check_real_update env service a w) =
       w\<lparr>trace := trace w @
           [LogOldFields (case feed_store w service of None \<Rightarrow> PyStr ''hello''
                          | Some old \<Rightarrow> PyFields (d_fields old)),
            LogNewFields (PyFields (d_fields (objs w a)))]\<rparr>"
  using assms
  by (auto simp: check_real_update_def emit_def Let_def split: option.splits pytime.splits if_splits)

text \<open>
  Claim C1.  \<open>check_real_update\<close> answers False (a ghost update) exactly when the
  service has a stored entry whose field list equals the candidate's; for a candidate
  whose time is a datetime it answers True otherwise.  The time and the other entries
  play no part: after an accepted evaluation, a candidate with the same fields is a
  ghost, and so is a candidate that differs from the stored entry in its time only.
\<close>

theorem check_real_update_compares_fields_only:
  "(fst (check_real_update env service a w) = Inr False \<longleftrightarrow>
      (\<exists>old. feed_store w service = Some old \<and> d_fields old = d_fields (objs w a))) \<and>
   (d_time (objs w a) = Datetime t \<longrightarrow>
      fst (check_real_update env service a w) =
        Inr (\<not> (\<exists>old. feed_store w service = Some old \<and> d_fields old = d_fields (objs w a)))) \<and>
   (fst (check_real_update env service a w) = Inr True \<and>
    d_fields (objs (snd (check_real_update env service a w)) b) = d_fields (objs w a) \<longrightarrow>
      fst (check_real_update env service b (snd (check_real_update env service a w))) = Inr False) \<and>
   (feed_store w service = Some old \<and> objs w a = old\<lparr>d_time := x\<rparr> \<longrightarrow>
      fst (check_real_update env service a w) = Inr False)"
proof (intro conjI impI)
  show "fst (check_real_update env service a w) = Inr False \<longleftrightarrow>
      (\<exists>old. feed_store w service = Some old \<and> d_fields old = d_fields (objs w a))"
    by (rule cru_ghost_iff)
next
  assume "d_time (objs w a) = Datetime t"
  then show "fst (check_real_update env service a w) =
        Inr (\<not> (\<exists>old. feed_store w service = Some old \<and> d_fields old = d_fields (objs w a)))"
    by (rule cru_datetime)
next
  assume h: "fst (check_real_update env service a w) = Inr True \<and>
    d_fields (objs (snd (check_real_update env service a w)) b) = d_fields (objs w a)"
  from h cru_accept[of env service a w] obtain t where
    st: "feed_store (snd (check_real_update env service a w)) service =
          Some ((objs w a)\<lparr>d_time := EpochFloat (timestamp env t)\<rparr>)"
    by auto
  show "fst (check_real_update env service b (snd (check_real_update env service a w))) = Inr False"
    unfolding cru_ghost_iff using st h by simp
next
  assume "feed_store w service = Some old \<and> objs w a = old\<lparr>d_time := x\<rparr>"
  then show "fst (check_real_update env service a w) = Inr False"
    unfolding cru_ghost_iff by simp
qed

theorem check_real_update_compares_fields_only_witness:
  "fst (check_real_update env0 ''discord'' 0 world0) = Inr True \<and>
   d_time (objs world0 0) = Datetime 1600000000 \<and>
   d_fields (objs (snd (check_real_update env0 ''discord'' 0 world0)) 1) = d_fields (objs world0 0) \<and>
   fst (check_real_update env0 ''discord'' 1 (snd (check_real_update env0 ''discord'' 0 world0)))
     = Inr False \<and>
   feed_store (world0\<lparr>feed_store := [''discord'' \<mapsto> feeddict0]\<rparr>) ''discord'' = Some feeddict0 \<and>
   objs (world0\<lparr>feed_store := [''discord'' \<mapsto> feeddict0]\<rparr>) 0 = feeddict0\<lparr>d_time := Datetime 1600000000\<rparr> \<and>
   fst (check_real_update env0 ''discord'' 0 (world0\<lparr>feed_store := [''discord'' \<mapsto> feeddict0]\<rparr>))
     = Inr False"
proof -
  have t: "d_time (objs world0 0) = Datetime 1600000000"
    by (simp add: world0_def feeddict0_def)
  have e: "\<not> (\<exists>old. feed_store world0 ''discord'' = Some old \<and> d_fields old = d_fields (objs world0 0))"
    by (simp add: world0_def)
  note inst = check_real_update_compares_fields_only[of env0 "''discord''" 0 world0 1600000000 1]
  from inst t e have acc: "fst (check_real_update env0 ''discord'' 0 world0) = Inr True"
    by simp
  from cru_accept[OF acc]
  have same: "d_fields (objs (snd (check_real_update env0 ''discord'' 0 world0)) 1) = d_fields (objs world0 0)"
    by (auto simp: world0_def)
  from inst acc same
  have second: "fst (check_real_update env0 ''discord'' 1 (snd (check_real_update env0 ''discord'' 0 world0))) = Inr False"
    by blast
  have st: "feed_store (world0\<lparr>feed_store := [''discord'' \<mapsto> feeddict0]\<rparr>) ''discord'' = Some feeddict0"
    by simp
  have ob: "objs (world0\<lparr>feed_store := [''discord'' \<mapsto> feeddict0]\<rparr>) 0 = feeddict0\<lparr>d_time := Datetime 1600000000\<rparr>"
    by (simp add: world0_def feeddict0_def)
  from check_real_update_compares_fields_only[of env0 "''discord''" 0
        "world0\<lparr>feed_store := [''discord'' \<mapsto> feeddict0]\<rparr>" _ _ feeddict0 "Datetime 1600000000"] st ob
  have third: "fst (check_real_update env0 ''discord'' 0 (world0\<lparr>feed_store := [''discord'' \<mapsto> feeddict0]\<rparr>)) = Inr False"
    by blast
  from acc t same second st ob third show ?thesis by blast
qed


text \<open>
  Claim C2.  For a service without a stored entry the old value is the string
  \<open>"hello"\<close>, which no field list equals: every candidate whose time is a datetime
  is accepted, the empty field list included, and becomes the stored entry.
\<close>

theorem check_real_update_first_poll_accepted:
  assumes "feed_store w service = None" and "d_time (objs w a) = Datetime t"
  shows "fst (check_real_update env service a w) = Inr True \<and>
         feed_store (snd (check_real_update env service a w)) service =
           Some ((objs w a)\<lparr>d_time := EpochFloat (timestamp env t)\<rparr>) \<and>
         LogOldFields (PyStr ''hello'') \<in> set (trace (snd (check_real_update env service a w)))"
  using assms
  by (simp add: check_real_update_def emit_def Let_def)

theorem check_real_update_first_poll_accepted_witness:
  "feed_store world0 ''github'' = None \<and>
   d_fields (objs (world0\<lparr>objs := (\<lambda>a. feeddict0\<lparr>d_fields := []\<rparr>)\<rparr>) 0) = [] \<and>
   fst (check_real_update env0 ''github'' 0
          (world0\<lparr>objs := (\<lambda>a. feeddict0\<lparr>d_fields := []\<rparr>)\<rparr>)) = Inr True"
  using check_real_update_first_poll_accepted
          [of "world0\<lparr>objs := (\<lambda>a. feeddict0\<lparr>d_fields := []\<rparr>)\<rparr>" "''github''" 0 1600000000 env0]
  by (simp add: world0_def feeddict0_def)

section \<open>What the parts of a cycle change\<close>

text \<open>
  Sending changes nothing but the trace, and every event it adds was built from the
  \<open>"time"\<close> entry that the feeddict has when it is sent.
\<close>

lemma emit_simps [simp]:
  "trace (emit ev w) = trace w @ [ev]"
  "objs (emit ev w) = objs w"
  "feed_store (emit ev w) = feed_store w"
  "etags (emit ev w) = etags w"
  "guilds (emit ev w) = guilds w"
  "next_addr (emit ev w) = next_addr w"
  by (simp_all add: emit_def)

lemma emit_eq: "emit ev w = w\<lparr>trace := trace w @ [ev]\<rparr>"
  by (simp add: emit_def)

lemma foldl_add_field_timestamp:
  "e_timestamp (foldl add_field em fs) = e_timestamp em"
  by (induction fs arbitrary: em) (simp_all add: add_field_def)

lemma try_send_frame:
  "\<exists>evs. snd (try_send env ch msg w) = w\<lparr>trace := trace w @ evs\<rparr> \<and>
         (\<forall>ev \<in> set evs. (\<exists>c. ev = ChannelSend c msg) \<or> (\<exists>c g. ev = LogUnableToSend c g))"
proof (cases ch)
  case None
  then have "snd (try_send env ch msg w) = w\<lparr>trace := trace w @ []\<rparr>"
    by (simp add: try_send_def)
  then show ?thesis by (intro exI[of _ "[]"]) simp
next
  case (Some c)
  show ?thesis
  proof (cases "channel_send env c msg")
    case None
    with Some have "snd (try_send env ch msg w) = w\<lparr>trace := trace w @ [ChannelSend (chan_id c) msg]\<rparr>"
      by (simp add: try_send_def emit_eq)
    then show ?thesis by (intro exI[of _ "[ChannelSend (chan_id c) msg]"]) simp
  next
    case (Some e)
    show ?thesis
    proof (cases "e = Forbidden \<or> e = AttributeError")
      case True
      with Some \<open>ch = Some c\<close>
      have "snd (try_send env ch msg w) =
              w\<lparr>trace := trace w @ [ChannelSend (chan_id c) msg,
                                      LogUnableToSend (chan_id c) (chan_guild_id c)]\<rparr>"
        by (auto simp add: try_send_def emit_eq)
      then show ?thesis
        by (intro exI[of _ "[ChannelSend (chan_id c) msg,
                             LogUnableToSend (chan_id c) (chan_guild_id c)]"]) simp
    next
      case False
      with Some \<open>ch = Some c\<close>
      have "snd (try_send env ch msg w) = w\<lparr>trace := trace w @ [ChannelSend (chan_id c) msg]\<rparr>"
        by (auto simp add: try_send_def emit_eq)
      then show ?thesis by (intro exI[of _ "[ChannelSend (chan_id c) msg]"]) simp
    qed
  qed
qed

lemma build_embed_frame:
  "build_embed env d w = (r, w1) \<Longrightarrow>
     (w1 = w \<or> w1 = w\<lparr>trace := trace w @ [LogTimestampError (d_time d)]\<rparr>) \<and>
     (\<forall>em. r = Inr em \<longrightarrow> e_timestamp em = None \<or> e_timestamp em = Some (d_time d))"
  by (auto simp: build_embed_def emit_eq split: option.splits if_splits)

lemma send_updated_feed_frame:
  "\<exists>evs. snd (send_updated_feed env a c w) = w\<lparr>trace := trace w @ evs\<rparr> \<and>
         (\<forall>ev \<in> set evs. reads_time (d_time (objs w a)) ev)"
proof (cases "embed_requested env (get_channel env c)")
  case (Inl e)
  then have "snd (send_updated_feed env a c w) = w\<lparr>trace := trace w @ []\<rparr>"
    by (simp add: send_updated_feed_def)
  then show ?thesis by (intro exI[of _ "[]"]) simp
next
  case (Inr b)
  show ?thesis
  proof (cases b)
    case False
    let ?msg = "TextMsg (re_sub env (text_message (objs w a)))"
    from try_send_frame[of env "get_channel env c" ?msg w] obtain evs where
      evs: "snd (try_send env (get_channel env c) ?msg w) = w\<lparr>trace := trace w @ evs\<rparr>"
        "\<forall>ev \<in> set evs. (\<exists>c. ev = ChannelSend c ?msg) \<or> (\<exists>c g. ev = LogUnableToSend c g)"
      by blast
    have "\<forall>ev \<in> set evs. reads_time (d_time (objs w a)) ev"
      using evs(2) by (auto simp: reads_time_def)
    moreover have "snd (send_updated_feed env a c w) = w\<lparr>trace := trace w @ evs\<rparr>"
      using Inr False evs(1) by (simp add: send_updated_feed_def)
    ultimately show ?thesis by blast
  next
    case True
    obtain r w1 where be: "build_embed env (objs w a) w = (r, w1)"
      by (cases "build_embed env (objs w a) w")
    from build_embed_frame[OF be] have
      w1: "w1 = w \<or> w1 = w\<lparr>trace := trace w @ [LogTimestampError (d_time (objs w a))]\<rparr>"
      and ts: "\<forall>em. r = Inr em \<longrightarrow> e_timestamp em = None \<or> e_timestamp em = Some (d_time (objs w a))"
      by blast+
    from w1 obtain pre where pre: "w1 = w\<lparr>trace := trace w @ pre\<rparr>"
      "\<forall>ev \<in> set pre. reads_time (d_time (objs w a)) ev"
    proof
      assume "w1 = w"
      then have "w1 = w\<lparr>trace := trace w @ []\<rparr>" by simp
      then show ?thesis using that[of "[]"] by simp
    next
      assume "w1 = w\<lparr>trace := trace w @ [LogTimestampError (d_time (objs w a))]\<rparr>"
      then show ?thesis using that[of "[LogTimestampError (d_time (objs w a))]"]
        by (simp add: reads_time_def)
    qed
    show ?thesis
    proof (cases r)
      case (Inl e)
      with Inr True be have "snd (send_updated_feed env a c w) = w1"
        by (simp add: send_updated_feed_def)
      with pre show ?thesis by blast
    next
      case (Inr em)
      let ?msg = "EmbedMsg (foldl add_field em (rev (d_fields (objs w1 a))))"
      from try_send_frame[of env "get_channel env c" ?msg w1] obtain evs where
        evs: "snd (try_send env (get_channel env c) ?msg w1) = w1\<lparr>trace := trace w1 @ evs\<rparr>"
          "\<forall>ev \<in> set evs. (\<exists>c. ev = ChannelSend c ?msg) \<or> (\<exists>c g. ev = LogUnableToSend c g)"
        by blast
      from ts Inr have "e_timestamp em = None \<or> e_timestamp em = Some (d_time (objs w a))"
        by simp
      then have "\<forall>ev \<in> set evs. reads_time (d_time (objs w a)) ev"
        using evs(2)
        by (auto simp: reads_time_def foldl_add_field_timestamp)
      moreover have "snd (send_updated_feed env a c w) = w\<lparr>trace := trace w @ (pre @ evs)\<rparr>"
        using \<open>embed_requested env (get_channel env c) = Inr b\<close> True be Inr evs(1) pre(1)
        by (simp add: send_updated_feed_def)
      ultimately show ?thesis using pre(2)
        by (intro exI[of _ "pre @ evs"]) auto
    qed
  qed
qed

lemma send_all_frame:
  "\<exists>evs. snd (send_all env a cs w) = w\<lparr>trace := trace w @ evs\<rparr> \<and>
         (\<forall>ev \<in> set evs. reads_time (d_time (objs w a)) ev)"
proof (induction cs arbitrary: w)
  case Nil
  have "snd (send_all env a [] w) = w\<lparr>trace := trace w @ []\<rparr>" by simp
  then show ?case by (intro exI[of _ "[]"]) simp
next
  case (Cons c cs)
  from send_updated_feed_frame[of env a c w] obtain e1 where
    e1: "snd (send_updated_feed env a c w) = w\<lparr>trace := trace w @ e1\<rparr>"
      "\<forall>ev \<in> set e1. reads_time (d_time (objs w a)) ev"
    by blast
  obtain r w1 where s: "send_updated_feed env a c w = (r, w1)"
    by (cases "send_updated_feed env a c w")
  with e1 have w1: "w1 = w\<lparr>trace := trace w @ e1\<rparr>" by simp
  show ?case
  proof (cases r)
    case (Some e)
    with s w1 have "snd (send_all env a (c # cs) w) = w\<lparr>trace := trace w @ e1\<rparr>" by simp
    with e1(2) show ?thesis by blast
  next
    case None
    from Cons.IH[of w1] obtain e2 where
      e2: "snd (send_all env a cs w1) = w1\<lparr>trace := trace w1 @ e2\<rparr>"
        "\<forall>ev \<in> set e2. reads_time (d_time (objs w1 a)) ev"
      by blast
    from None s w1 e2(1)
    have "snd (send_all env a (c # cs) w) = w\<lparr>trace := trace w @ (e1 @ e2)\<rparr>" by simp
    moreover have "\<forall>ev \<in> set (e1 @ e2). reads_time (d_time (objs w a)) ev"
      using e1(2) e2(2) w1 by auto
    ultimately show ?thesis by blast
  qed
qed


lemma fan_out_frame:
  "\<exists>evs. snd (fan_out env s a w) = w\<lparr>trace := trace w @ evs\<rparr> \<and>
         (\<forall>ev \<in> set evs. reads_time (d_time (objs w a)) ev)"
proof -
  let ?w1 = "emit (LogFeedDict s (objs w a)) w"
  let ?cs = "get_channels ?w1 s"
  let ?w2 = "emit (LogSending s (length ?cs)) ?w1"
  have w2: "?w2 = w\<lparr>trace := trace w @ [LogFeedDict s (objs w a), LogSending s (length ?cs)]\<rparr>"
    by (simp add: emit_eq)
  from send_all_frame[of env a ?cs ?w2] obtain evs where
    evs: "snd (send_all env a ?cs ?w2) = ?w2\<lparr>trace := trace ?w2 @ evs\<rparr>"
      "\<forall>ev \<in> set evs. reads_time (d_time (objs ?w2 a)) ev"
    by blast
  obtain r w3 where sa: "send_all env a ?cs ?w2 = (r, w3)"
    by (cases "send_all env a ?cs ?w2")
  with evs(1) have w3: "w3 = w\<lparr>trace := trace w @ [LogFeedDict s (objs w a), LogSending s (length ?cs)] @ evs\<rparr>"
    by (simp add: emit_eq)
  have pre_ok: "\<forall>ev \<in> set ([LogFeedDict s (objs w a), LogSending s (length ?cs)] @ evs).
                  reads_time (d_time (objs w a)) ev"
    using evs(2) by (auto simp: reads_time_def)
  show ?thesis
  proof (cases r)
    case (Some e)
    with sa have "snd (fan_out env s a w) = w3" by (simp add: fan_out_def Let_def)
    with w3 pre_ok show ?thesis by blast
  next
    case None
    with sa have "snd (fan_out env s a w) = emit LogDone w3" by (simp add: fan_out_def Let_def)
    with w3 have "snd (fan_out env s a w) =
        w\<lparr>trace := trace w @ ([LogFeedDict s (objs w a), LogSending s (length ?cs)] @ evs @ [LogDone])\<rparr>"
      by (simp add: emit_eq)
    moreover have "\<forall>ev \<in> set ([LogFeedDict s (objs w a), LogSending s (length ?cs)] @ evs @ [LogDone]).
                  reads_time (d_time (objs w a)) ev"
      using pre_ok by (auto simp: reads_time_def)
    ultimately show ?thesis by blast
  qed
qed

lemma fetch_frame:
  "\<exists>evs et. snd (fetch env feed w) = w\<lparr>etags := et, trace := trace w @ evs\<rparr> \<and>
     evs \<noteq> [] \<and> (\<forall>ev \<in> set evs. \<exists>tag. ev = Fetch (snd feed) tag)"
proof (cases "etags w (fst feed)")
  case None
  show ?thesis
  proof (cases "feedparser_parse env (snd feed) None")
    case (Inl e)
    with None have "snd (fetch env feed w) = w\<lparr>etags := etags w, trace := trace w @ [Fetch (snd feed) None]\<rparr>"
      by (simp add: fetch_def emit_eq)
    then show ?thesis by (intro exI[of _ "[Fetch (snd feed) None]"] exI[of _ "etags w"]) simp
  next
    case (Inr r)
    with None have "snd (fetch env feed w) =
        w\<lparr>etags := (etags w)(fst feed \<mapsto> ''hello''), trace := trace w @ [Fetch (snd feed) None]\<rparr>"
      by (simp add: fetch_def emit_eq)
    then show ?thesis
      by (intro exI[of _ "[Fetch (snd feed) None]"] exI[of _ "(etags w)(fst feed \<mapsto> ''hello'')"]) simp
  qed
next
  case (Some tag)
  show ?thesis
  proof (cases "feedparser_parse env (snd feed) (Some tag)")
    case (Inr r)
    with Some have "snd (fetch env feed w) =
        w\<lparr>etags := etags w, trace := trace w @ [Fetch (snd feed) (Some tag)]\<rparr>"
      by (simp add: fetch_def emit_eq)
    then show ?thesis
      by (intro exI[of _ "[Fetch (snd feed) (Some tag)]"] exI[of _ "etags w"]) simp
  next
    case (Inl e)
    show ?thesis
    proof (cases "e = KeyError")
      case False
      with Inl Some have "snd (fetch env feed w) =
          w\<lparr>etags := etags w, trace := trace w @ [Fetch (snd feed) (Some tag)]\<rparr>"
        by (simp add: fetch_def emit_eq)
      then show ?thesis
        by (intro exI[of _ "[Fetch (snd feed) (Some tag)]"] exI[of _ "etags w"]) simp
    next
      case True
      show ?thesis
      proof (cases "feedparser_parse env (snd feed) None")
        case (Inl e2)
        with True \<open>feedparser_parse env (snd feed) (Some tag) = Inl e\<close> Some
        have "snd (fetch env feed w) =
          w\<lparr>etags := etags w, trace := trace w @ [Fetch (snd feed) (Some tag), Fetch (snd feed) None]\<rparr>"
          by (simp add: fetch_def emit_eq)
        then show ?thesis
          by (intro exI[of _ "[Fetch (snd feed) (Some tag), Fetch (snd feed) None]"] exI[of _ "etags w"])
             simp
      next
        case (Inr r)
        with True \<open>feedparser_parse env (snd feed) (Some tag) = Inl e\<close> Some
        have "snd (fetch env feed w) =
          w\<lparr>etags := (etags w)(fst feed \<mapsto> ''hello''),
            trace := trace w @ [Fetch (snd feed) (Some tag), Fetch (snd feed) None]\<rparr>"
          by (simp add: fetch_def emit_eq)
        then show ?thesis
          by (intro exI[of _ "[Fetch (snd feed) (Some tag), Fetch (snd feed) None]"]
                    exI[of _ "(etags w)(fst feed \<mapsto> ''hello'')"]) simp
      qed
    qed
  qed
qed


lemma loop_body_frame:
  "feed_store (snd (loop_body env feed w)) = feed_store (snd (try_body env feed w)) \<and>
   objs (snd (loop_body env feed w)) = objs (snd (try_body env feed w)) \<and>
   (\<exists>post. trace (snd (loop_body env feed w)) = trace (snd (try_body env feed w)) @ post \<and>
           (\<forall>ev \<in> set post. ev = LogUnableToConnect (fst feed)))"
proof (cases "try_body env feed w")
  case (Pair r w1)
  show ?thesis
  proof (cases r)
    case None
    with Pair show ?thesis by (simp add: loop_body_def)
  next
    case (Some e)
    consider "e = ConnectionRefusedError \<or> e = URLError" | "e = KeyError"
      | "e \<noteq> ConnectionRefusedError" "e \<noteq> URLError" "e \<noteq> KeyError"
      by blast
    then show ?thesis
    proof cases
      case 1
      with Pair Some have "loop_body env feed w = (None, emit (LogUnableToConnect (fst feed)) w1)"
        by (auto simp: loop_body_def)
      with Pair show ?thesis by simp
    next
      case 2
      with Pair Some have "loop_body env feed w = (None, w1\<lparr>etags := (etags w1)(fst feed \<mapsto> ''hello'')\<rparr>)"
        by (simp add: loop_body_def)
      with Pair show ?thesis by simp
    next
      case 3
      with Pair Some have "loop_body env feed w = (Some e, w1)"
        by (simp add: loop_body_def)
      with Pair show ?thesis by simp
    qed
  qed
qed

lemmas run_defs = loop_body_def try_body_def fetch_def process_feed_def check_real_update_def
  fan_out_def get_channels_def send_updated_feed_def build_embed_def try_send_def emit_def
  add_field_def text_message_def sent_to_def fetched_def Let_def

lemmas input_defs = env0_def world0_def feeddict0_def response0_def field0_def feed0_def
  world_ghost_def

lemmas cycle_defs = actually_check_updates_def FEED_URLS_def

lemmas more_input_defs = feed1_def env_second_fails_def env_unreachable_def

section \<open>The feed store and the fan-out\<close>

text \<open>
  Claim C3.  Take the pass of the loop for one service in which the fetch answers 200 and
  \<open>process_feed\<close> builds the feeddict \<open>d\<close>.  When the stored field list equals
  that of \<open>d\<close> (a ghost update) the pass ends normally, the feed store is as before and
  no \<open>channel.send\<close> is called.  Otherwise the entry of the service becomes \<open>d\<close> with
  its time as the epoch number, and the Config write of the feed store precedes every
  \<open>channel.send\<close> of the pass; this holds also when the fan-out raises.
\<close>

theorem feed_store_written_before_fan_out:
  assumes f: "fetch env feed w = (Inr response, w1)"
    and st: "r_status response = Some 200" and et: "r_etag response = Some etag"
    and pf: "helper_process_feed env (fst feed) response = Inr d"
  shows
   "((\<exists>old. feed_store w (fst feed) = Some old \<and> d_fields old = d_fields d) \<longrightarrow>
       fst (loop_body env feed w) = None \<and>
       feed_store (snd (loop_body env feed w)) = feed_store w \<and>
       (\<exists>evs. trace (snd (loop_body env feed w)) = trace w @ evs \<and>
              (\<forall>c m. ChannelSend c m \<notin> set evs))) \<and>
    (\<not> (\<exists>old. feed_store w (fst feed) = Some old \<and> d_fields old = d_fields d) \<and>
     d_time d = Datetime t \<longrightarrow>
       feed_store (snd (loop_body env feed w)) =
         (feed_store w)(fst feed \<mapsto> d\<lparr>d_time := EpochFloat (timestamp env t)\<rparr>) \<and>
       (\<exists>pre post. trace (snd (loop_body env feed w)) =
            trace w @ pre @ SaveFeedStore (fst feed) (d\<lparr>d_time := EpochFloat (timestamp env t)\<rparr>) # post \<and>
          (\<forall>c m. ChannelSend c m \<notin> set pre)))"
proof -
  from fetch_frame[of env feed w] f obtain fevs tags where
    w1: "w1 = w\<lparr>etags := tags, trace := trace w @ fevs\<rparr>"
    and fevs: "\<forall>ev \<in> set fevs. \<exists>tag. ev = Fetch (snd feed) tag"
    by auto
  define a where "a = next_addr w"
  define w3 where "w3 = w1\<lparr>etags := (etags w1)(fst feed \<mapsto> etag),
                           objs := (objs w1)(a := d), next_addr := Suc a\<rparr>"
  have pfeed: "process_feed env (fst feed) response (w1\<lparr>etags := (etags w1)(fst feed \<mapsto> etag)\<rparr>)
                 = (Inr a, w3)"
    using pf by (simp add: process_feed_def w3_def a_def w1)
  have tb: "try_body env feed w =
      (case check_real_update env (fst feed) a w3 of
         (Inl e, w4) \<Rightarrow> (Some e, w4)
       | (Inr False, w4) \<Rightarrow> (None, emit (LogGhost (fst feed)) w4)
       | (Inr True, w4) \<Rightarrow> fan_out env (fst feed) a w4)"
    using f st et pfeed by (simp add: try_body_def)
  have w3_store: "feed_store w3 = feed_store w" and w3_obj: "objs w3 a = d"
    and w3_trace: "trace w3 = trace w @ fevs"
    by (simp_all add: w3_def w1)
  have fevs_nosend: "\<forall>c m. ChannelSend c m \<notin> set fevs"
    using fevs by auto
  obtain r w4 where cru: "check_real_update env (fst feed) a w3 = (r, w4)"
    by (cases "check_real_update env (fst feed) a w3")
  let ?olds = "LogOldFields (case feed_store w3 (fst feed) of None \<Rightarrow> PyStr ''hello''
                              | Some old \<Rightarrow> PyFields (d_fields old))"
  let ?news = "LogNewFields (PyFields (d_fields (objs w3 a)))"
  show ?thesis
  proof (intro conjI impI)
    assume ghost: "\<exists>old. feed_store w (fst feed) = Some old \<and> d_fields old = d_fields d"
    then have r: "r = Inr False"
      using cru cru_ghost_iff[of env "fst feed" a w3] w3_store w3_obj by simp
    then have w4: "w4 = w3\<lparr>trace := trace w3 @ [?olds, ?news]\<rparr>"
      using cru cru_not_accept[of env "fst feed" a w3] by simp
    have tbg: "try_body env feed w = (None, emit (LogGhost (fst feed)) w4)"
      using tb cru r by simp
    then have lb: "loop_body env feed w = (None, emit (LogGhost (fst feed)) w4)"
      by (simp add: loop_body_def)
    show "fst (loop_body env feed w) = None" using lb by simp
    show "feed_store (snd (loop_body env feed w)) = feed_store w"
      using lb w4 w3_store by simp
    have "trace (snd (loop_body env feed w)) = trace w @ (fevs @ [?olds, ?news, LogGhost (fst feed)])"
      using lb w4 w3_trace by simp
    moreover have "\<forall>c m. ChannelSend c m \<notin> set (fevs @ [?olds, ?news, LogGhost (fst feed)])"
      using fevs_nosend by simp
    ultimately show "\<exists>evs. trace (snd (loop_body env feed w)) = trace w @ evs \<and>
              (\<forall>c m. ChannelSend c m \<notin> set evs)"
      by blast
  next
    assume acc: "\<not> (\<exists>old. feed_store w (fst feed) = Some old \<and> d_fields old = d_fields d) \<and>
                 d_time d = Datetime t"
    let ?d' = "d\<lparr>d_time := EpochFloat (timestamp env t)\<rparr>"
    have r: "r = Inr True"
      using cru cru_datetime[of w3 a t env "fst feed"] acc w3_store w3_obj by simp
    from cru_accept[of env "fst feed" a w3] r cru w3_obj acc
    have w4: "w4 = w3\<lparr>objs := (objs w3)(a := ?d'),
                       feed_store := (feed_store w3)(fst feed \<mapsto> ?d'),
                       trace := trace w3 @ [?olds, ?news, SaveFeedStore (fst feed) ?d']\<rparr>"
      by auto
    have tba: "try_body env feed w = fan_out env (fst feed) a w4"
      using tb cru r by simp
    from fan_out_frame[of env "fst feed" a w4] obtain evs where
      evs: "snd (fan_out env (fst feed) a w4) = w4\<lparr>trace := trace w4 @ evs\<rparr>"
      by blast
    from loop_body_frame[of env feed w] obtain post where
      lbs: "feed_store (snd (loop_body env feed w)) = feed_store (snd (try_body env feed w))"
      and lbt: "trace (snd (loop_body env feed w)) = trace (snd (try_body env feed w)) @ post"
      by blast
    show "feed_store (snd (loop_body env feed w)) = (feed_store w)(fst feed \<mapsto> ?d')"
      using lbs tba evs w4 w3_store by simp
    have "trace (snd (loop_body env feed w)) =
            trace w @ (fevs @ [?olds, ?news]) @ SaveFeedStore (fst feed) ?d' # (evs @ post)"
      using lbt tba evs w4 w3_trace by simp
    moreover have "\<forall>c m. ChannelSend c m \<notin> set (fevs @ [?olds, ?news])"
      using fevs_nosend by simp
    ultimately show "\<exists>pre post. trace (snd (loop_body env feed w)) =
            trace w @ pre @ SaveFeedStore (fst feed) ?d' # post \<and>
          (\<forall>c m. ChannelSend c m \<notin> set pre)"
      by blast
  qed
qed


theorem feed_store_written_before_fan_out_witness:
  "fst (fetch env0 feed0 world0) = Inr response0 \<and>
   r_status response0 = Some 200 \<and> r_etag response0 = Some ''etag-1'' \<and>
   helper_process_feed env0 (fst feed0) response0 = Inr feeddict0 \<and>
   d_time feeddict0 = Datetime 1600000000 \<and>
   feed_store world0 (fst feed0) = None \<and>
   feed_store (snd (loop_body env0 feed0 world0)) (fst feed0)
     = Some (feeddict0\<lparr>d_time := EpochFloat 1600000000\<rparr>) \<and>
   (\<exists>pre post. trace (snd (loop_body env0 feed0 world0)) =
       pre @ SaveFeedStore (fst feed0) (feeddict0\<lparr>d_time := EpochFloat 1600000000\<rparr>) # post \<and>
       (\<forall>c m. ChannelSend c m \<notin> set pre)) \<and>
   sent_to (trace (snd (loop_body env0 feed0 world0))) = [1, 2, 3] \<and>
   fst (fetch env0 feed0 world_ghost) = Inr response0 \<and>
   feed_store world_ghost (fst feed0) = Some (feeddict0\<lparr>d_time := EpochFloat 1599999000\<rparr>) \<and>
   d_fields (feeddict0\<lparr>d_time := EpochFloat 1599999000\<rparr>) = d_fields feeddict0 \<and>
   fst (loop_body env0 feed0 world_ghost) = None \<and>
   feed_store (snd (loop_body env0 feed0 world_ghost)) = feed_store world_ghost \<and>
   sent_to (trace (snd (loop_body env0 feed0 world_ghost))) = []"
proof -
  have f1: "fst (fetch env0 feed0 world0) = Inr response0"
    by (simp add: fetch_def input_defs)
  have fg1: "fst (fetch env0 feed0 world_ghost) = Inr response0"
    by (simp add: fetch_def input_defs)
  have f: "fetch env0 feed0 world0 = (Inr response0, snd (fetch env0 feed0 world0))"
    using f1 by (simp add: prod_eq_iff)
  have fg: "fetch env0 feed0 world_ghost = (Inr response0, snd (fetch env0 feed0 world_ghost))"
    using fg1 by (simp add: prod_eq_iff)
  have st: "r_status response0 = Some 200" and et: "r_etag response0 = Some ''etag-1''"
    by (simp_all add: response0_def)
  have pf: "helper_process_feed env0 (fst feed0) response0 = Inr feeddict0"
    by (simp add: env0_def)
  have dt: "d_time feeddict0 = Datetime 1600000000"
    by (simp add: feeddict0_def)
  have none: "feed_store world0 (fst feed0) = None"
    by (simp add: world0_def)
  have some: "feed_store world_ghost (fst feed0) = Some (feeddict0\<lparr>d_time := EpochFloat 1599999000\<rparr>)"
    by (simp add: world_ghost_def feed0_def)
  have same: "d_fields (feeddict0\<lparr>d_time := EpochFloat 1599999000\<rparr>) = d_fields feeddict0"
    by simp
  have ts: "timestamp env0 1600000000 = 1600000000"
    by (simp add: env0_def)
  have tr0: "trace world0 = []" "trace world_ghost = []"
    by (simp_all add: world0_def world_ghost_def)
  note acc = feed_store_written_before_fan_out[OF f st et pf, of 1600000000]
  note gho = feed_store_written_before_fan_out[OF fg st et pf, of 1600000000]
  from acc none dt ts tr0
  have a1: "feed_store (snd (loop_body env0 feed0 world0)) (fst feed0)
              = Some (feeddict0\<lparr>d_time := EpochFloat 1600000000\<rparr>)"
    and a2: "\<exists>pre post. trace (snd (loop_body env0 feed0 world0)) =
       pre @ SaveFeedStore (fst feed0) (feeddict0\<lparr>d_time := EpochFloat 1600000000\<rparr>) # post \<and>
       (\<forall>c m. ChannelSend c m \<notin> set pre)"
    by simp_all
  from gho some same
  have g1: "fst (loop_body env0 feed0 world_ghost) = None"
    and g2: "feed_store (snd (loop_body env0 feed0 world_ghost)) = feed_store world_ghost"
    by blast+
  have s1: "sent_to (trace (snd (loop_body env0 feed0 world0))) = [1, 2, 3]"
    by (simp add: run_defs input_defs)
  have s2: "sent_to (trace (snd (loop_body env0 feed0 world_ghost))) = []"
    by (simp add: run_defs input_defs)
  from f1 fg1 st et pf dt none some same a1 a2 g1 g2 s1 s2 show ?thesis
    by blast
qed


section \<open>The time entry after an accepted update\<close>

text \<open>
  Claim C10.  When \<open>check_real_update\<close> answers True, the feeddict at the caller's
  address had a datetime as its time and now has the epoch number in its place.  The
  fan-out that follows reads the same object and changes nothing but the trace: the
  feeddict it logs, the timestamp warning and every embed it sends carry the epoch number
  (or, for an embed built after the TypeError, no timestamp), never the datetime.
\<close>

theorem accepted_candidate_time_is_epoch_for_later_readers:
  assumes acc: "check_real_update env service a w = (Inr True, w')"
  shows "\<exists>t. d_time (objs w a) = Datetime t \<and>
           objs w' = (objs w)(a := (objs w a)\<lparr>d_time := EpochFloat (timestamp env t)\<rparr>) \<and>
           (\<exists>evs. snd (fan_out env service a w') = w'\<lparr>trace := trace w' @ evs\<rparr> \<and>
              (\<forall>s d. LogFeedDict s d \<in> set evs \<longrightarrow> d_time d = EpochFloat (timestamp env t)) \<and>
              (\<forall>x. LogTimestampError x \<in> set evs \<longrightarrow> x = EpochFloat (timestamp env t)) \<and>
              (\<forall>c em. ChannelSend c (EmbedMsg em) \<in> set evs \<longrightarrow>
                 e_timestamp em = None \<or> e_timestamp em = Some (EpochFloat (timestamp env t))))"
proof -
  from acc have "fst (check_real_update env service a w) = Inr True" by simp
  from cru_accept[OF this] acc obtain t where
    t: "d_time (objs w a) = Datetime t"
    and w': "w' = w\<lparr>objs := (objs w)(a := (objs w a)\<lparr>d_time := EpochFloat (timestamp env t)\<rparr>),
         feed_store := (feed_store w)(service \<mapsto> (objs w a)\<lparr>d_time := EpochFloat (timestamp env t)\<rparr>),
         trace := trace w @
           [LogOldFields (case feed_store w service of None \<Rightarrow> PyStr ''hello''
                          | Some old \<Rightarrow> PyFields (d_fields old)),
            LogNewFields (PyFields (d_fields (objs w a))),
            SaveFeedStore service ((objs w a)\<lparr>d_time := EpochFloat (timestamp env t)\<rparr>)]\<rparr>"
    by auto
  have ob: "objs w' = (objs w)(a := (objs w a)\<lparr>d_time := EpochFloat (timestamp env t)\<rparr>)"
    by (simp add: w')
  then have tm: "d_time (objs w' a) = EpochFloat (timestamp env t)" by simp
  from fan_out_frame[of env service a w'] tm obtain evs where
    evs: "snd (fan_out env service a w') = w'\<lparr>trace := trace w' @ evs\<rparr>"
    and rd: "\<forall>ev \<in> set evs. reads_time (EpochFloat (timestamp env t)) ev"
    by auto
  have r1: "\<forall>s d. LogFeedDict s d \<in> set evs \<longrightarrow> d_time d = EpochFloat (timestamp env t)"
  proof (intro allI impI)
    fix s d assume "LogFeedDict s d \<in> set evs"
    with rd have "reads_time (EpochFloat (timestamp env t)) (LogFeedDict s d)" by blast
    then show "d_time d = EpochFloat (timestamp env t)" by (simp add: reads_time_def)
  qed
  have r2: "\<forall>x. LogTimestampError x \<in> set evs \<longrightarrow> x = EpochFloat (timestamp env t)"
  proof (intro allI impI)
    fix x assume "LogTimestampError x \<in> set evs"
    with rd have "reads_time (EpochFloat (timestamp env t)) (LogTimestampError x)" by blast
    then show "x = EpochFloat (timestamp env t)" by (simp add: reads_time_def)
  qed
  have r3: "\<forall>c em. ChannelSend c (EmbedMsg em) \<in> set evs \<longrightarrow>
                 e_timestamp em = None \<or> e_timestamp em = Some (EpochFloat (timestamp env t))"
  proof (intro allI impI)
    fix c em assume "ChannelSend c (EmbedMsg em) \<in> set evs"
    with rd have "reads_time (EpochFloat (timestamp env t)) (ChannelSend c (EmbedMsg em))" by blast
    then show "e_timestamp em = None \<or> e_timestamp em = Some (EpochFloat (timestamp env t))"
      by (simp add: reads_time_def)
  qed
  from t ob evs r1 r2 r3 show ?thesis by blast
qed

theorem accepted_candidate_time_is_epoch_for_later_readers_witness:
  "check_real_update env0 ''discord'' 0 world0
     = (Inr True, snd (check_real_update env0 ''discord'' 0 world0)) \<and>
   d_time (objs world0 0) = Datetime 1600000000 \<and>
   d_time (objs (snd (check_real_update env0 ''discord'' 0 world0)) 0) = EpochFloat 1600000000 \<and>
   LogTimestampError (EpochFloat 1600000000)
     \<in> set (trace (snd (fan_out env0 ''discord'' 0 (snd (check_real_update env0 ''discord'' 0 world0))))) \<and>
   sent_timestamps (trace (snd (fan_out env_float_ok ''discord'' 0
       (snd (check_real_update env_float_ok ''discord'' 0 world0)))))
     = [Some (EpochFloat 1600000000), Some (EpochFloat 1600000000), Some (EpochFloat 1600000000)]"
proof -
  have f: "fst (check_real_update env0 ''discord'' 0 world0) = Inr True"
    by (simp add: check_real_update_def Let_def input_defs)
  then have acc: "check_real_update env0 ''discord'' 0 world0
     = (Inr True, snd (check_real_update env0 ''discord'' 0 world0))"
    by (simp add: prod_eq_iff)
  have dt: "d_time (objs world0 0) = Datetime 1600000000"
    by (simp add: input_defs)
  have ts: "timestamp env0 1600000000 = 1600000000"
    by (simp add: env0_def)
  from accepted_candidate_time_is_epoch_for_later_readers[OF acc] dt ts
  have ep: "d_time (objs (snd (check_real_update env0 ''discord'' 0 world0)) 0) = EpochFloat 1600000000"
    by auto
  have lg: "LogTimestampError (EpochFloat 1600000000)
     \<in> set (trace (snd (fan_out env0 ''discord'' 0 (snd (check_real_update env0 ''discord'' 0 world0)))))"
    by (simp add: run_defs input_defs)
  have fl: "sent_timestamps (trace (snd (fan_out env_float_ok ''discord'' 0
       (snd (check_real_update env_float_ok ''discord'' 0 world0)))))
     = [Some (EpochFloat 1600000000), Some (EpochFloat 1600000000), Some (EpochFloat 1600000000)]"
    by (simp add: run_defs input_defs env_float_ok_def sent_timestamps_def)
  from acc dt ep lg fl show ?thesis by blast
qed


section \<open>Exceptions in the loop over the feeds\<close>

text \<open>
  Every pass of the loop extends the trace and fetches its feed at least once; the
  handlers turn a connection failure into a log line and a KeyError into a reset etag.
\<close>

lemma cru_trace:
  "\<exists>evs. trace (snd (check_real_update env s a w)) = trace w @ evs"
proof (cases "fst (check_real_update env s a w) = Inr True")
  case True
  from cru_accept[OF True] obtain t where
    "snd (check_real_update env s a w) =
       w\<lparr>objs := (objs w)(a := (objs w a)\<lparr>d_time := EpochFloat (timestamp env t)\<rparr>),
         feed_store := (feed_store w)(s \<mapsto> (objs w a)\<lparr>d_time := EpochFloat (timestamp env t)\<rparr>),
         trace := trace w @
           [LogOldFields (case feed_store w s of None \<Rightarrow> PyStr ''hello''
                          | Some old \<Rightarrow> PyFields (d_fields old)),
            LogNewFields (PyFields (d_fields (objs w a))),
            SaveFeedStore s ((objs w a)\<lparr>d_time := EpochFloat (timestamp env t)\<rparr>)]\<rparr>"
    by blast
  then show ?thesis by simp
next
  case False
  from cru_not_accept[OF False] show ?thesis by simp
qed

lemma ext_trans:
  assumes "\<exists>evs. trace w2 = trace w1 @ evs" and "\<exists>evs. trace w3 = trace w2 @ evs"
  shows "\<exists>evs. trace w3 = trace w1 @ evs"
proof -
  from assms obtain e1 e2 where "trace w2 = trace w1 @ e1" "trace w3 = trace w2 @ e2" by blast
  then have "trace w3 = trace w1 @ (e1 @ e2)" by simp
  then show ?thesis by blast
qed

lemma fan_out_ext: "\<exists>evs. trace (snd (fan_out env s a w)) = trace w @ evs"
proof -
  from fan_out_frame[of env s a w] obtain evs where
    "snd (fan_out env s a w) = w\<lparr>trace := trace w @ evs\<rparr>" by blast
  then have "trace (snd (fan_out env s a w)) = trace w @ evs" by simp
  then show ?thesis by blast
qed

lemma after_check_ext:
  "\<exists>evs. trace (snd (case rc of
             Inl e \<Rightarrow> (Some e, w4)
           | Inr False \<Rightarrow> (None, emit (LogGhost s) w4)
           | Inr True \<Rightarrow> fan_out env s a w4)) = trace w4 @ evs"
proof (cases rc)
  case (Inl e)
  then show ?thesis by simp
next
  case (Inr b)
  show ?thesis
  proof (cases b)
    case True
    with Inr show ?thesis using fan_out_ext[of env s a w4] by simp
  next
    case False
    with Inr show ?thesis by simp
  qed
qed

lemma fetched_append [simp]: "fetched (xs @ ys) = fetched xs @ fetched ys"
  by (simp add: fetched_def)

lemma fetched_Fetch: "Fetch u tag \<in> set evs \<Longrightarrow> u \<in> set (fetched evs)"
proof (induction evs)
  case Nil
  then show ?case by simp
next
  case (Cons ev evs)
  have "fetched (ev # evs) = fetched [ev] @ fetched evs"
    by (simp add: fetched_def)
  moreover have "ev = Fetch u tag \<Longrightarrow> u \<in> set (fetched [ev])"
    by (simp add: fetched_def)
  ultimately show ?case using Cons by auto
qed

lemma tb_inl:
  "fetch env feed w = (Inl e, w1) \<Longrightarrow> try_body env feed w = (Some e, w1)"
  by (simp add: try_body_def)

lemma tb_nostatus:
  "fetch env feed w = (Inr response, w1) \<Longrightarrow> r_status response = None \<Longrightarrow>
   try_body env feed w = (Some AttributeError, w1)"
  by (simp add: try_body_def)

lemma tb_not200:
  "fetch env feed w = (Inr response, w1) \<Longrightarrow> r_status response = Some st \<Longrightarrow> st \<noteq> 200 \<Longrightarrow>
   try_body env feed w = (None, emit (LogNoUpdate (fst feed)) w1)"
  by (simp add: try_body_def)

lemma tb_noetag:
  "fetch env feed w = (Inr response, w1) \<Longrightarrow> r_status response = Some 200 \<Longrightarrow>
   r_etag response = None \<Longrightarrow>
   try_body env feed w = (Some AttributeError, w1)"
  by (simp add: try_body_def)

lemma tb_parse_fails:
  "fetch env feed w = (Inr response, w1) \<Longrightarrow> r_status response = Some 200 \<Longrightarrow>
   r_etag response = Some etag \<Longrightarrow> helper_process_feed env (fst feed) response = Inl e \<Longrightarrow>
   try_body env feed w = (Some e, w1\<lparr>etags := (etags w1)(fst feed \<mapsto> etag)\<rparr>)"
  by (simp add: try_body_def process_feed_def)


lemma tb_checked:
  assumes "fetch env feed w = (Inr response, w1)" and "r_status response = Some 200"
    and "r_etag response = Some etag" and "helper_process_feed env (fst feed) response = Inr d"
    and "check_real_update env (fst feed) (next_addr w1)
           (w1\<lparr>etags := (etags w1)(fst feed \<mapsto> etag),
                objs := (objs w1)(next_addr w1 := d),
                next_addr := Suc (next_addr w1)\<rparr>) = (rc, w4)"
  shows "try_body env feed w =
          (case rc of Inl e \<Rightarrow> (Some e, w4)
           | Inr False \<Rightarrow> (None, emit (LogGhost (fst feed)) w4)
           | Inr True \<Rightarrow> fan_out env (fst feed) (next_addr w1) w4)"
proof -
  have pfd: "process_feed env (fst feed) response (w1\<lparr>etags := (etags w1)(fst feed \<mapsto> etag)\<rparr>) =
          (Inr (next_addr w1),
           w1\<lparr>etags := (etags w1)(fst feed \<mapsto> etag),
                objs := (objs w1)(next_addr w1 := d),
                next_addr := Suc (next_addr w1)\<rparr>)"
    using assms(4) by (simp add: process_feed_def)
  show ?thesis
    unfolding try_body_def
    by (simp only: assms(1) assms(2) assms(3) pfd assms(5) prod.case sum.case option.case
                   if_True refl)
qed


lemma try_body_extends:
  "\<exists>evs. trace (snd (try_body env feed w)) = trace (snd (fetch env feed w)) @ evs"
proof -
  obtain r w1 where f: "fetch env feed w = (r, w1)"
    by (cases "fetch env feed w")
  have goal: "\<exists>evs. trace (snd (try_body env feed w)) = trace w1 @ evs"
  proof (cases r)
    case (Inl e)
    with f have "try_body env feed w = (Some e, w1)" by (simp add: tb_inl)
    then show ?thesis by simp
  next
    case (Inr response)
    with f have fr: "fetch env feed w = (Inr response, w1)" by simp
    show ?thesis
    proof (cases "r_status response")
      case None
      from tb_nostatus[OF fr None] show ?thesis by simp
    next
      case (Some status)
      show ?thesis
      proof (cases "status = 200")
        case False
        from tb_not200[OF fr Some False] show ?thesis by simp
      next
        case True
        with Some have ok: "r_status response = Some 200" by simp
        show ?thesis
        proof (cases "r_etag response")
          case None
          from tb_noetag[OF fr ok None] show ?thesis by simp
        next
          case (Some etag)
          note tag = this
          show ?thesis
          proof (cases "helper_process_feed env (fst feed) response")
            case (Inl e)
            from tb_parse_fails[OF fr ok tag Inl] show ?thesis by simp
          next
            case (Inr d)
            define w3 where "w3 = w1\<lparr>etags := (etags w1)(fst feed \<mapsto> etag),
                                     objs := (objs w1)(next_addr w1 := d),
                                     next_addr := Suc (next_addr w1)\<rparr>"
            obtain rc w4 where c: "check_real_update env (fst feed) (next_addr w1) w3 = (rc, w4)"
              by (cases "check_real_update env (fst feed) (next_addr w1) w3")
            have t3: "trace w3 = trace w1" by (simp add: w3_def)
            from cru_trace[of env "fst feed" "next_addr w1" w3] obtain e1 where
              "trace (snd (check_real_update env (fst feed) (next_addr w1) w3)) = trace w3 @ e1"
              by blast
            with c t3 have "trace w4 = trace w1 @ e1" by simp
            then have x1: "\<exists>evs. trace w4 = trace w1 @ evs" by blast
            have tb: "try_body env feed w =
                (case rc of Inl e \<Rightarrow> (Some e, w4)
                 | Inr False \<Rightarrow> (None, emit (LogGhost (fst feed)) w4)
                 | Inr True \<Rightarrow> fan_out env (fst feed) (next_addr w1) w4)"
              using tb_checked[OF fr ok tag Inr] c unfolding w3_def by blast
            have x2: "\<exists>evs. trace (snd (try_body env feed w)) = trace w4 @ evs"
              unfolding tb by (rule after_check_ext)
            from x1 x2 show ?thesis by (rule ext_trans)
          qed
        qed
      qed
    qed
  qed
  have "snd (fetch env feed w) = w1" using f by simp
  with goal show ?thesis by simp
qed

lemma fetch_trace:
  "\<exists>fevs. trace (snd (fetch env feed w)) = trace w @ fevs \<and> snd feed \<in> set (fetched fevs)"
proof -
  from fetch_frame[of env feed w] obtain fevs tags where
    w1: "snd (fetch env feed w) = w\<lparr>etags := tags, trace := trace w @ fevs\<rparr>"
    and ne: "fevs \<noteq> []" and fe: "\<forall>ev \<in> set fevs. \<exists>tag. ev = Fetch (snd feed) tag"
    by (elim exE conjE)
  from ne obtain ev rest where c: "fevs = ev # rest" by (cases fevs) simp_all
  with fe have "\<exists>tag. ev = Fetch (snd feed) tag" by simp
  then obtain tag where "ev = Fetch (snd feed) tag" ..
  with c have "Fetch (snd feed) tag \<in> set fevs" by simp
  then have fd: "snd feed \<in> set (fetched fevs)" by (rule fetched_Fetch)
  from w1 have "trace (snd (fetch env feed w)) = trace w @ fevs" by simp
  with fd show ?thesis by (intro exI[of _ fevs] conjI)
qed

lemma try_body_trace:
  "\<exists>evs. trace (snd (try_body env feed w)) = trace w @ evs \<and> snd feed \<in> set (fetched evs)"
proof -
  from fetch_trace[of env feed w] obtain fevs where
    f: "trace (snd (fetch env feed w)) = trace w @ fevs" "snd feed \<in> set (fetched fevs)"
    by (elim exE conjE)
  from try_body_extends[of env feed w] obtain evs where
    e: "trace (snd (try_body env feed w)) = trace (snd (fetch env feed w)) @ evs"
    by (elim exE)
  from e f(1) have "trace (snd (try_body env feed w)) = trace w @ (fevs @ evs)" by simp
  moreover from f(2) have "snd feed \<in> set (fetched (fevs @ evs))" by simp
  ultimately show ?thesis by (intro exI[of _ "fevs @ evs"] conjI)
qed

lemma loop_body_result:
  "loop_body env feed w =
     (case try_body env feed w of
        (None, w1) \<Rightarrow> (None, w1)
      | (Some e, w1) \<Rightarrow>
          if e = ConnectionRefusedError \<or> e = URLError
          then (None, emit (LogUnableToConnect (fst feed)) w1)
          else if e = KeyError then (None, w1\<lparr>etags := (etags w1)(fst feed \<mapsto> ''hello'')\<rparr>)
          else (Some e, w1))"
  by (simp add: loop_body_def)

lemma loop_body_trace:
  "\<exists>evs. trace (snd (loop_body env feed w)) = trace w @ evs \<and> snd feed \<in> set (fetched evs) \<and>
     (fst (try_body env feed w) = Some ConnectionRefusedError \<or>
      fst (try_body env feed w) = Some URLError
          \<longrightarrow> LogUnableToConnect (fst feed) \<in> set evs)"
proof -
  from try_body_trace[of env feed w] obtain evs where
    evs: "trace (snd (try_body env feed w)) = trace w @ evs" "snd feed \<in> set (fetched evs)"
    by (elim exE conjE)
  obtain r w1 where tb: "try_body env feed w = (r, w1)" by (cases "try_body env feed w")
  from tb evs(1) have t1: "trace w1 = trace w @ evs" by simp
  show ?thesis
  proof (cases "r = Some ConnectionRefusedError \<or> r = Some URLError")
    case True
    with tb have "loop_body env feed w = (None, emit (LogUnableToConnect (fst feed)) w1)"
      unfolding loop_body_result by auto
    with t1 have "trace (snd (loop_body env feed w)) = trace w @ (evs @ [LogUnableToConnect (fst feed)])"
      by simp
    moreover have "snd feed \<in> set (fetched (evs @ [LogUnableToConnect (fst feed)]))"
      using evs(2) by simp
    moreover have "LogUnableToConnect (fst feed) \<in> set (evs @ [LogUnableToConnect (fst feed)])"
      by simp
    ultimately show ?thesis
      by (intro exI[of _ "evs @ [LogUnableToConnect (fst feed)]"] conjI impI)
  next
    case False
    with tb have nc: "\<not> (fst (try_body env feed w) = Some ConnectionRefusedError \<or>
                     fst (try_body env feed w) = Some URLError)"
      by simp
    have "trace (snd (loop_body env feed w)) = trace w1"
    proof (cases r)
      case None
      with tb show ?thesis unfolding loop_body_result by simp
    next
      case (Some e)
      with False have "e \<noteq> ConnectionRefusedError" "e \<noteq> URLError" by auto
      with tb Some show ?thesis unfolding loop_body_result by simp
    qed
    with t1 have "trace (snd (loop_body env feed w)) = trace w @ evs" by simp
    with evs(2) nc show ?thesis
      by (intro exI[of _ evs] conjI impI) simp_all
  qed
qed

lemma loop_body_none:
  "fst (try_body env feed w) = None \<Longrightarrow> loop_body env feed w = (None, snd (try_body env feed w))"
  by (cases "try_body env feed w") (simp add: loop_body_result)

lemma loop_body_connection:
  "fst (try_body env feed w) = Some e \<Longrightarrow> e = ConnectionRefusedError \<or> e = URLError \<Longrightarrow>
   loop_body env feed w = (None, emit (LogUnableToConnect (fst feed)) (snd (try_body env feed w)))"
  by (cases "try_body env feed w") (auto simp add: loop_body_result)

lemma loop_body_key:
  "fst (try_body env feed w) = Some KeyError \<Longrightarrow>
   loop_body env feed w =
     (None, (snd (try_body env feed w))\<lparr>etags := (etags (snd (try_body env feed w)))(fst feed \<mapsto> ''hello'')\<rparr>)"
  by (cases "try_body env feed w") (simp add: loop_body_result)

lemma loop_body_other:
  "fst (try_body env feed w) = Some e \<Longrightarrow> e \<noteq> ConnectionRefusedError \<Longrightarrow> e \<noteq> URLError \<Longrightarrow>
   e \<noteq> KeyError \<Longrightarrow> loop_body env feed w = (Some e, snd (try_body env feed w))"
  by (cases "try_body env feed w") (simp add: loop_body_result)

lemma for_feeds_completes_iff:
  "fst (for_feeds env feeds w) = None \<longleftrightarrow>
     (\<forall>(s, e) \<in> set (raised env feeds w).
         e = ConnectionRefusedError \<or> e = URLError \<or> e = KeyError)"
proof (induction feeds arbitrary: w)
  case Nil
  show ?case by simp
next
  case (Cons feed rest)
  show ?case
  proof (cases "fst (try_body env feed w)")
    case None
    from loop_body_none[OF None] None Cons.IH[of "snd (try_body env feed w)"]
    show ?thesis by simp
  next
    case (Some e)
    consider "e = ConnectionRefusedError \<or> e = URLError" | "e = KeyError"
      | "e \<noteq> ConnectionRefusedError" "e \<noteq> URLError" "e \<noteq> KeyError"
      by blast
    then show ?thesis
    proof cases
      case 1
      from loop_body_connection[OF Some 1] Some 1
        Cons.IH[of "emit (LogUnableToConnect (fst feed)) (snd (try_body env feed w))"]
      show ?thesis by auto
    next
      case 2
      with Some have k: "fst (try_body env feed w) = Some KeyError" by simp
      from loop_body_key[OF k] k
        Cons.IH[of "(snd (try_body env feed w))\<lparr>etags := (etags (snd (try_body env feed w)))(fst feed \<mapsto> ''hello'')\<rparr>"]
      show ?thesis by simp
    next
      case 3
      from loop_body_other[OF Some 3] Some 3 show ?thesis by simp
    qed
  qed
qed

lemma raised_Cons_None:
  "loop_body env feed w = (None, w1) \<Longrightarrow>
   set (raised env (feed # rest) w) =
     (case fst (try_body env feed w) of None \<Rightarrow> {} | Some e \<Rightarrow> {(fst feed, e)})
       \<union> set (raised env rest w1)"
  by (cases "fst (try_body env feed w)") simp_all

lemma for_feeds_trace:
  "fst (for_feeds env feeds w) = None \<Longrightarrow>
   \<exists>evs. trace (snd (for_feeds env feeds w)) = trace w @ evs \<and>
     set (map snd feeds) \<subseteq> set (fetched evs) \<and>
     (\<forall>(s, e) \<in> set (raised env feeds w).
         e = ConnectionRefusedError \<or> e = URLError \<longrightarrow> LogUnableToConnect s \<in> set evs)"
proof (induction feeds arbitrary: w)
  case Nil
  show ?case by simp
next
  case (Cons feed rest)
  obtain r w1 where lb: "loop_body env feed w = (r, w1)" by (cases "loop_body env feed w")
  with Cons.prems have r: "r = None" by (cases r) simp_all
  with lb have lbn: "loop_body env feed w = (None, w1)" by simp
  with Cons.prems have rest: "fst (for_feeds env rest w1) = None" by simp
  from loop_body_trace[of env feed w] obtain e1 where
    e1a: "trace (snd (loop_body env feed w)) = trace w @ e1" and e1b: "snd feed \<in> set (fetched e1)"
    and e1c: "fst (try_body env feed w) = Some ConnectionRefusedError \<or>
       fst (try_body env feed w) = Some URLError
          \<longrightarrow> LogUnableToConnect (fst feed) \<in> set e1"
    by (elim exE conjE)
  from e1a lbn have t1: "trace w1 = trace w @ e1" by simp
  from Cons.IH[OF rest] obtain e2 where
    e2a: "trace (snd (for_feeds env rest w1)) = trace w1 @ e2"
    and e2b: "set (map snd rest) \<subseteq> set (fetched e2)"
    and e2c: "\<forall>(s, e) \<in> set (raised env rest w1).
         e = ConnectionRefusedError \<or> e = URLError \<longrightarrow> LogUnableToConnect s \<in> set e2"
    by (elim exE conjE)
  have t: "trace (snd (for_feeds env (feed # rest) w)) = trace w @ (e1 @ e2)"
    using lbn t1 e2a by simp
  have fch: "set (map snd (feed # rest)) \<subseteq> set (fetched (e1 @ e2))"
    using e1b e2b by auto
  have lg: "\<forall>(s, e) \<in> set (raised env (feed # rest) w).
         e = ConnectionRefusedError \<or> e = URLError \<longrightarrow> LogUnableToConnect s \<in> set (e1 @ e2)"
  proof (intro ballI, clarify)
    fix s e
    assume mem: "(s, e) \<in> set (raised env (feed # rest) w)"
      and ce: "e = ConnectionRefusedError \<or> e = URLError"
    from mem have "(s, e) \<in> (case fst (try_body env feed w) of None \<Rightarrow> {} | Some e \<Rightarrow> {(fst feed, e)})
                    \<or> (s, e) \<in> set (raised env rest w1)"
      unfolding raised_Cons_None[OF lbn] by simp
    then show "LogUnableToConnect s \<in> set (e1 @ e2)"
    proof
      assume "(s, e) \<in> (case fst (try_body env feed w) of None \<Rightarrow> {} | Some e \<Rightarrow> {(fst feed, e)})"
      then have "fst (try_body env feed w) = Some e \<and> s = fst feed"
        by (cases "fst (try_body env feed w)") simp_all
      with ce e1c show ?thesis by auto
    next
      assume "(s, e) \<in> set (raised env rest w1)"
      with ce e2c show ?thesis by auto
    qed
  qed
  from t fch lg show ?case by (intro exI[of _ "e1 @ e2"] conjI)
qed

lemma for_feeds_append:
  "for_feeds env (xs @ ys) w =
     (case for_feeds env xs w of
        (Some e, w1) \<Rightarrow> (Some e, w1)
      | (None, w1) \<Rightarrow> for_feeds env ys w1)"
proof (induction xs arbitrary: w)
  case Nil
  show ?case by simp
next
  case (Cons x xs)
  obtain r w1 where lb: "loop_body env x w = (r, w1)" by (cases "loop_body env x w")
  show ?case
  proof (cases r)
    case None
    with lb Cons.IH[of w1] show ?thesis by simp
  next
    case (Some e)
    with lb show ?thesis by simp
  qed
qed

lemma for_feeds_stops:
  assumes pre: "for_feeds env pre w = (None, w1)"
    and ex: "fst (try_body env feed w1) = Some e"
    and other: "e \<noteq> ConnectionRefusedError" "e \<noteq> URLError" "e \<noteq> KeyError"
  shows "for_feeds env (pre @ feed # rest) w = (Some e, snd (try_body env feed w1))"
proof -
  have "for_feeds env (pre @ feed # rest) w = for_feeds env (feed # rest) w1"
    using pre by (simp add: for_feeds_append)
  also have "\<dots> = (Some e, snd (try_body env feed w1))"
    using loop_body_other[OF ex other] by simp
  finally show ?thesis .
qed

text \<open>
  Claim C4, as the code has it.  \<open>actually_check_updates\<close> is \<open>for_feeds\<close> on
  \<open>FEED_URLS\<close>.
  \<^item> The loop runs to its end exactly when every exception raised while a service is
    processed is a ConnectionRefusedError, a URLError or a KeyError; then every feed of
    the list has been fetched, and each connection failure has been logged for its
    service.
  \<^item> A connection failure adds the log line to what the pass had done, and the loop goes
    on with the next feed.
  \<^item> A KeyError adds no log line: the etag of the service is set to \<open>"hello"\<close>, and
    the loop goes on with the next feed.
  \<^item> An exception of any other class leaves the loop at once: the result is that
    exception with the state as the failing pass left it, whatever feeds come after, so
    the feeds after it are not processed in this cycle.
\<close>

theorem only_connection_and_key_errors_are_contained:
  "actually_check_updates env w = for_feeds env FEED_URLS w \<and>
   (fst (for_feeds env feeds w) = None \<longleftrightarrow>
      (\<forall>(s, e) \<in> set (raised env feeds w).
          e = ConnectionRefusedError \<or> e = URLError \<or> e = KeyError)) \<and>
   (fst (for_feeds env feeds w) = None \<longrightarrow>
      (\<exists>evs. trace (snd (for_feeds env feeds w)) = trace w @ evs \<and>
         set (map snd feeds) \<subseteq> set (fetched evs) \<and>
         (\<forall>(s, e) \<in> set (raised env feeds w).
             e = ConnectionRefusedError \<or> e = URLError \<longrightarrow> LogUnableToConnect s \<in> set evs))) \<and>
   (fst (try_body env feed w) = Some e \<and> (e = ConnectionRefusedError \<or> e = URLError) \<longrightarrow>
      loop_body env feed w
        = (None, emit (LogUnableToConnect (fst feed)) (snd (try_body env feed w))) \<and>
      for_feeds env (feed # rest) w
        = for_feeds env rest (emit (LogUnableToConnect (fst feed)) (snd (try_body env feed w)))) \<and>
   (fst (try_body env feed w) = Some KeyError \<longrightarrow>
      loop_body env feed w
        = (None, (snd (try_body env feed w))
                   \<lparr>etags := (etags (snd (try_body env feed w)))(fst feed \<mapsto> ''hello'')\<rparr>) \<and>
      for_feeds env (feed # rest) w
        = for_feeds env rest
            ((snd (try_body env feed w))
               \<lparr>etags := (etags (snd (try_body env feed w)))(fst feed \<mapsto> ''hello'')\<rparr>)) \<and>
   (for_feeds env pre w = (None, w') \<and> fst (try_body env feed w') = Some e \<and>
    e \<noteq> ConnectionRefusedError \<and> e \<noteq> URLError \<and> e \<noteq> KeyError \<longrightarrow>
      loop_body env feed w' = (Some e, snd (try_body env feed w')) \<and>
      for_feeds env (pre @ feed # rest) w = (Some e, snd (try_body env feed w')))"
proof (intro conjI impI)
  show "actually_check_updates env w = for_feeds env FEED_URLS w"
    by (simp add: actually_check_updates_def)
next
  show "fst (for_feeds env feeds w) = None \<longleftrightarrow>
      (\<forall>(s, e) \<in> set (raised env feeds w).
          e = ConnectionRefusedError \<or> e = URLError \<or> e = KeyError)"
    by (rule for_feeds_completes_iff)
next
  assume "fst (for_feeds env feeds w) = None"
  then show "\<exists>evs. trace (snd (for_feeds env feeds w)) = trace w @ evs \<and>
         set (map snd feeds) \<subseteq> set (fetched evs) \<and>
         (\<forall>(s, e) \<in> set (raised env feeds w).
             e = ConnectionRefusedError \<or> e = URLError \<longrightarrow> LogUnableToConnect s \<in> set evs)"
    by (rule for_feeds_trace)
next
  assume h: "fst (try_body env feed w) = Some e \<and> (e = ConnectionRefusedError \<or> e = URLError)"
  then have lb: "loop_body env feed w
        = (None, emit (LogUnableToConnect (fst feed)) (snd (try_body env feed w)))"
    using loop_body_connection[of env feed w e] by simp
  show "loop_body env feed w
        = (None, emit (LogUnableToConnect (fst feed)) (snd (try_body env feed w)))"
    by (rule lb)
  show "for_feeds env (feed # rest) w
        = for_feeds env rest (emit (LogUnableToConnect (fst feed)) (snd (try_body env feed w)))"
    using lb by simp
next
  assume k: "fst (try_body env feed w) = Some KeyError"
  note lb = loop_body_key[OF k]
  show "loop_body env feed w
        = (None, (snd (try_body env feed w))
                   \<lparr>etags := (etags (snd (try_body env feed w)))(fst feed \<mapsto> ''hello'')\<rparr>)"
    by (rule lb)
  show "for_feeds env (feed # rest) w
        = for_feeds env rest
            ((snd (try_body env feed w))
               \<lparr>etags := (etags (snd (try_body env feed w)))(fst feed \<mapsto> ''hello'')\<rparr>)"
    using lb by simp
next
  assume h: "for_feeds env pre w = (None, w') \<and> fst (try_body env feed w') = Some e \<and>
    e \<noteq> ConnectionRefusedError \<and> e \<noteq> URLError \<and> e \<noteq> KeyError"
  then show "loop_body env feed w' = (Some e, snd (try_body env feed w'))"
    using loop_body_other[of env feed w' e] by simp
  from h show "for_feeds env (pre @ feed # rest) w = (Some e, snd (try_body env feed w'))"
    using for_feeds_stops[of env pre w w' feed e rest] by simp
qed


theorem only_connection_and_key_errors_are_contained_witness:
  "raised env_unreachable FEED_URLS world0 =
     [(''discord'', URLError), (''github'', KeyError), (''cloudflare'', KeyError),
      (''python'', KeyError), (''twitter_api'', KeyError), (''statuspage'', KeyError),
      (''zoom'', KeyError), (''oracle_cloud'', KeyError)] \<and>
   fst (for_feeds env_unreachable FEED_URLS world0) = None \<and>
   fetched (trace (snd (for_feeds env_unreachable FEED_URLS world0))) = map snd FEED_URLS \<and>
   fst (try_body env_unreachable feed0 world0) = Some URLError \<and>
   trace (snd (loop_body env_unreachable feed0 world0))
     = [Fetch (snd feed0) None, LogUnableToConnect ''discord''] \<and>
   fst (try_body env_unreachable feed1 world0) = Some KeyError \<and>
   trace (snd (loop_body env_unreachable feed1 world0)) = [Fetch (snd feed1) None] \<and>
   etags (snd (loop_body env_unreachable feed1 world0)) ''github'' = Some ''hello'' \<and>
   fst (for_feeds env_second_fails [feed0] world0) = None \<and>
   fst (try_body env_second_fails feed1 (snd (for_feeds env_second_fails [feed0] world0)))
     = Some IndexError \<and>
   for_feeds env_second_fails FEED_URLS world0
     = (Some IndexError,
        snd (try_body env_second_fails feed1 (snd (for_feeds env_second_fails [feed0] world0)))) \<and>
   fetched (trace (snd (for_feeds env_second_fails FEED_URLS world0)))
     = [snd feed0, snd feed1]"
proof -
  have r: "raised env_unreachable FEED_URLS world0 =
     [(''discord'', URLError), (''github'', KeyError), (''cloudflare'', KeyError),
      (''python'', KeyError), (''twitter_api'', KeyError), (''statuspage'', KeyError),
      (''zoom'', KeyError), (''oracle_cloud'', KeyError)]"
    by (simp add: FEED_URLS_def run_defs input_defs more_input_defs)
  note whole = only_connection_and_key_errors_are_contained
                 [where env = env_unreachable and feeds = FEED_URLS and w = world0
                    and feed = feed0 and e = URLError and rest = "[]"]
  from whole r have n: "fst (for_feeds env_unreachable FEED_URLS world0) = None"
    by simp
  have f: "fetched (trace (snd (for_feeds env_unreachable FEED_URLS world0))) = map snd FEED_URLS"
    by (simp add: FEED_URLS_def run_defs input_defs more_input_defs)
  have u: "fst (try_body env_unreachable feed0 world0) = Some URLError"
    by (simp add: run_defs input_defs more_input_defs)
  from whole u have lb0: "loop_body env_unreachable feed0 world0
        = (None, emit (LogUnableToConnect (fst feed0)) (snd (try_body env_unreachable feed0 world0)))"
    by simp
  have t0: "trace (snd (try_body env_unreachable feed0 world0)) = [Fetch (snd feed0) None]"
    by (simp add: run_defs input_defs more_input_defs)
  from lb0 t0 have c: "trace (snd (loop_body env_unreachable feed0 world0))
     = [Fetch (snd feed0) None, LogUnableToConnect ''discord'']"
    by (simp add: feed0_def)
  have k: "fst (try_body env_unreachable feed1 world0) = Some KeyError"
    by (simp add: run_defs input_defs more_input_defs)
  note key = only_connection_and_key_errors_are_contained
               [where env = env_unreachable and w = world0 and feed = feed1 and rest = "[]"]
  from key k have lb1: "loop_body env_unreachable feed1 world0
        = (None, (snd (try_body env_unreachable feed1 world0))
                   \<lparr>etags := (etags (snd (try_body env_unreachable feed1 world0)))(fst feed1 \<mapsto> ''hello'')\<rparr>)"
    by simp
  have t1: "trace (snd (try_body env_unreachable feed1 world0)) = [Fetch (snd feed1) None]"
    by (simp add: run_defs input_defs more_input_defs)
  from lb1 t1 have k1: "trace (snd (loop_body env_unreachable feed1 world0)) = [Fetch (snd feed1) None]"
    by simp
  from lb1 have k2: "etags (snd (loop_body env_unreachable feed1 world0)) ''github'' = Some ''hello''"
    by (simp add: feed1_def)
  have p1: "fst (for_feeds env_second_fails [feed0] world0) = None"
    by (simp add: run_defs input_defs more_input_defs)
  then have p: "for_feeds env_second_fails [feed0] world0
                  = (None, snd (for_feeds env_second_fails [feed0] world0))"
    by (simp add: prod_eq_iff)
  have x: "fst (try_body env_second_fails feed1 (snd (for_feeds env_second_fails [feed0] world0)))
     = Some IndexError"
    by (simp add: run_defs input_defs more_input_defs)
  have split: "[feed0] @ feed1 # drop 2 FEED_URLS = FEED_URLS"
    by (simp add: FEED_URLS_def feed0_def feed1_def)
  note stop = only_connection_and_key_errors_are_contained
                [where env = env_second_fails and pre = "[feed0]" and w = world0
                   and w' = "snd (for_feeds env_second_fails [feed0] world0)"
                   and feed = feed1 and e = IndexError and rest = "drop 2 FEED_URLS"]
  from stop p x have "for_feeds env_second_fails ([feed0] @ feed1 # drop 2 FEED_URLS) world0
     = (Some IndexError,
        snd (try_body env_second_fails feed1 (snd (for_feeds env_second_fails [feed0] world0))))"
    by simp
  then have s: "for_feeds env_second_fails FEED_URLS world0
     = (Some IndexError,
        snd (try_body env_second_fails feed1 (snd (for_feeds env_second_fails [feed0] world0))))"
    by (simp only: split)
  have g: "fetched (trace (snd (for_feeds env_second_fails FEED_URLS world0)))
     = [snd feed0, snd feed1]"
    by (simp add: FEED_URLS_def run_defs input_defs more_input_defs)
  from r n f u c k k1 k2 p1 x s g show ?thesis by (intro conjI)
qed

text \<open>
  The claim as stated fails: when \<open>process_feed\<close> raises IndexError for the first
  feed, the exception leaves \<open>actually_check_updates\<close> and no other feed is fetched.
\<close>

theorem parse_failure_ends_the_cycle_counterexample:
  "fst (actually_check_updates env_no_entries world0) = Some IndexError \<and>
   fetched (trace (snd (actually_check_updates env_no_entries world0)))
     = [''https://discordstatus.com/history.atom'']"
  by (simp add: cycle_defs run_defs input_defs env_no_entries_def)


section \<open>A destination that cannot be sent to\<close>

text \<open>
  A channel that refuses the message (Forbidden) is logged and the call returns.  A
  channel id that \<open>get_channel\<close> no longer resolves makes \<open>send_updated_feed\<close>
  raise, whatever \<open>embed_requested\<close> answers for it.
\<close>

lemma send_updated_feed_unresolved_channel:
  "get_channel env c = None \<Longrightarrow> \<exists>e. fst (send_updated_feed env a c w) = Some e"
  by (auto simp: send_updated_feed_def try_send_def build_embed_def Let_def
           split: sum.splits bool.splits option.splits prod.splits if_splits)

lemma send_updated_feed_forbidden:
  "get_channel env c = Some ch \<Longrightarrow> embed_requested env (Some ch) = Inr False \<Longrightarrow>
   channel_send env ch (TextMsg (re_sub env (text_message (objs w a)))) = Some Forbidden \<Longrightarrow>
   fst (send_updated_feed env a c w) = None"
  by (simp add: send_updated_feed_def try_send_def)

text \<open>
  Claim C6.  Three channels are registered for the first feed and the second has been
  deleted.  The update is sent to the first channel; the call for the second raises
  AttributeError, which nothing in \<open>actually_check_updates\<close> catches: the third channel
  is never sent to, and no feed after the first is fetched.
\<close>

theorem deleted_channel_ends_the_fan_out:
  "fst (actually_check_updates env_deleted_channel world0) = Some AttributeError \<and>
   get_channels world0 ''discord'' = [1, 2, 3] \<and>
   sent_to (trace (snd (actually_check_updates env_deleted_channel world0))) = [1] \<and>
   fetched (trace (snd (actually_check_updates env_deleted_channel world0)))
     = [''https://discordstatus.com/history.atom'']"
  by (simp add: cycle_defs run_defs input_defs env_deleted_channel_def)

section \<open>A fetch that does not answer 200\<close>

text \<open>
  Claim C7, as the code has it.  When the fetch of a service answers with a status other
  than 200, the pass logs "No status update" and ends normally.  For a service that has a
  stored etag, nothing but the trace changes.  For a service without one, the etag
  \<open>"hello"\<close> is stored; the feed store and the rest are as before.
\<close>

theorem non_200_keeps_stored_state:
  "(etags w (fst feed) = Some tag \<and> feedparser_parse env (snd feed) (Some tag) = Inr response \<and>
    r_status response = Some st \<and> st \<noteq> 200 \<longrightarrow>
      loop_body env feed w =
        (None, w\<lparr>trace := trace w @ [Fetch (snd feed) (Some tag), LogNoUpdate (fst feed)]\<rparr>)) \<and>
   (etags w (fst feed) = None \<and> feedparser_parse env (snd feed) None = Inr response \<and>
    r_status response = Some st \<and> st \<noteq> 200 \<longrightarrow>
      loop_body env feed w =
        (None, w\<lparr>etags := (etags w)(fst feed \<mapsto> ''hello''),
                 trace := trace w @ [Fetch (snd feed) None, LogNoUpdate (fst feed)]\<rparr>))"
  by (simp add: loop_body_def try_body_def fetch_def emit_def)

theorem non_200_keeps_stored_state_witness:
  "etags (world0\<lparr>etags := [''discord'' \<mapsto> ''etag-0'']\<rparr>) (fst feed0) = Some ''etag-0'' \<and>
   feedparser_parse env_not_modified (snd feed0) (Some ''etag-0'') = Inr (response0\<lparr>r_status := Some 304\<rparr>) \<and>
   r_status (response0\<lparr>r_status := Some 304\<rparr>) = Some 304 \<and> (304 :: int) \<noteq> 200 \<and>
   loop_body env_not_modified feed0 (world0\<lparr>etags := [''discord'' \<mapsto> ''etag-0'']\<rparr>) =
     (None, world0\<lparr>etags := [''discord'' \<mapsto> ''etag-0''],
                   trace := [Fetch (snd feed0) (Some ''etag-0''), LogNoUpdate (fst feed0)]\<rparr>) \<and>
   etags world0 (fst feed0) = None \<and>
   feedparser_parse env_not_modified (snd feed0) None = Inr (response0\<lparr>r_status := Some 304\<rparr>) \<and>
   etags (snd (loop_body env_not_modified feed0 world0)) = [''discord'' \<mapsto> ''hello''] \<and>
   feed_store (snd (loop_body env_not_modified feed0 world0)) = feed_store world0"
proof -
  let ?w = "world0\<lparr>etags := [''discord'' \<mapsto> ''etag-0'']\<rparr>"
  let ?r = "response0\<lparr>r_status := Some 304\<rparr>"
  have h1: "etags ?w (fst feed0) = Some ''etag-0''" by (simp add: feed0_def)
  have h2: "feedparser_parse env_not_modified (snd feed0) (Some ''etag-0'') = Inr ?r"
    by (simp add: env_not_modified_def env0_def)
  have h3: "r_status ?r = Some 304" by simp
  have h4: "(304 :: int) \<noteq> 200" by simp
  have h5: "etags world0 (fst feed0) = None" by (simp add: world0_def)
  have h6: "feedparser_parse env_not_modified (snd feed0) None = Inr ?r"
    by (simp add: env_not_modified_def env0_def)
  note a = non_200_keeps_stored_state[of ?w feed0 "''etag-0''" env_not_modified ?r 304]
  note b = non_200_keeps_stored_state[of world0 feed0 _ env_not_modified ?r 304]
  from a h1 h2 h3 h4 have c1: "loop_body env_not_modified feed0 ?w =
     (None, ?w\<lparr>trace := trace ?w @ [Fetch (snd feed0) (Some ''etag-0''), LogNoUpdate (fst feed0)]\<rparr>)"
    by blast
  have "trace ?w = []" by (simp add: world0_def)
  with c1 have c1': "loop_body env_not_modified feed0 ?w =
     (None, world0\<lparr>etags := [''discord'' \<mapsto> ''etag-0''],
                   trace := [Fetch (snd feed0) (Some ''etag-0''), LogNoUpdate (fst feed0)]\<rparr>)"
    by simp
  from b h5 h6 h3 h4 have c2: "loop_body env_not_modified feed0 world0 =
        (None, world0\<lparr>etags := (etags world0)(fst feed0 \<mapsto> ''hello''),
                 trace := trace world0 @ [Fetch (snd feed0) None, LogNoUpdate (fst feed0)]\<rparr>)"
    by blast
  from c2 have c3: "etags (snd (loop_body env_not_modified feed0 world0)) = [''discord'' \<mapsto> ''hello'']"
    by (simp add: world0_def feed0_def)
  from c2 have c4: "feed_store (snd (loop_body env_not_modified feed0 world0)) = feed_store world0"
    by simp
  from h1 h2 h3 h4 c1' h5 h6 c3 c4 show ?thesis by (intro conjI)
qed

text \<open>
  The claim as stated fails on the first poll of a service: its stored etag changes from
  none to \<open>"hello"\<close> although the fetch answered 304.
\<close>

theorem first_poll_non_200_stores_placeholder_counterexample:
  "etags world0 ''discord'' = None \<and>
   etags (snd (actually_check_updates env_not_modified world0)) ''discord'' = Some ''hello''"
  by (simp add: cycle_defs run_defs input_defs env_not_modified_def)


section \<open>statusset remove\<close>




section \<open>get_channels and statusset add\<close>

lemma get_channels_loop_concat:
  "get_channels_loop gs service acc =
     acc @ concat (map (\<lambda>server. stored_destinations (snd server) service) gs)"
proof (induction gs arbitrary: acc)
  case Nil
  show ?case by simp
next
  case (Cons server rest)
  show ?case
  proof (cases "snd server service")
    case None
    with Cons.IH[of acc] show ?thesis by (simp add: stored_destinations_def)
  next
    case (Some v)
    show ?thesis
    proof (cases v)
      case (ChanList l)
      with Some Cons.IH[of "acc @ l"] show ?thesis by (simp add: stored_destinations_def)
    next
      case (LegacyInt k)
      with Some Cons.IH[of "acc @ [k]"] show ?thesis by (simp add: stored_destinations_def)
    qed
  qed
qed

lemma statusset_add_present:
  "feeds (py_lower service0) = Some (ChanList l) \<Longrightarrow> tc_id channel \<in> set l \<Longrightarrow>
   snd (statusset_add service0 channel feeds) = feeds \<and>
   (py_lower service0 \<in> set (map fst FEED_URLS) \<and> tc_send_messages channel \<and> tc_embed_links channel
      \<longrightarrow> fst (statusset_add service0 channel feeds)
            = Inr (AlreadyReceives (tc_id channel) (py_lower service0)))"
  by (simp add: statusset_add_def Let_def)

lemma statusset_add_distinct:
  assumes inv: "\<forall>s l. feeds s = Some (ChanList l) \<longrightarrow> distinct l"
    and res: "snd (statusset_add service0 channel feeds) s = Some (ChanList l)"
  shows "distinct l"
proof (cases "snd (statusset_add service0 channel feeds) = feeds")
  case True
  with inv res show ?thesis by simp
next
  case False
  then have valid: "py_lower service0 \<in> set (map fst FEED_URLS)"
    and perm: "tc_send_messages channel" "tc_embed_links channel"
    by (auto simp: statusset_add_def Let_def split: if_splits)
  show ?thesis
  proof (cases "feeds (py_lower service0)")
    case None
    with valid perm have "snd (statusset_add service0 channel feeds)
        = feeds(py_lower service0 \<mapsto> ChanList [tc_id channel])"
      by (simp add: statusset_add_def Let_def)
    with res inv show ?thesis by (auto split: if_splits)
  next
    case (Some v)
    show ?thesis
    proof (cases v)
      case (LegacyInt k)
      with Some valid perm have "snd (statusset_add service0 channel feeds) = feeds"
        by (simp add: statusset_add_def Let_def)
      with False show ?thesis by simp
    next
      case (ChanList l0)
      show ?thesis
      proof (cases "tc_id channel \<in> set l0")
        case True
        with Some ChanList valid perm have "snd (statusset_add service0 channel feeds) = feeds"
          by (simp add: statusset_add_def Let_def)
        with False show ?thesis by simp
      next
        case notin: False
        with Some ChanList valid perm have "snd (statusset_add service0 channel feeds)
            = feeds(py_lower service0 \<mapsto> ChanList (l0 @ [tc_id channel]))"
          by (simp add: statusset_add_def Let_def)
        moreover from inv Some ChanList have "distinct l0" by simp
        ultimately show ?thesis using res inv notin by (auto split: if_splits)
      qed
    qed
  qed
qed

text \<open>
  Claim C9, as the code has it.  \<open>get_channels\<close> returns the stored destinations of
  the guilds one after the other, a single integer counting as one destination; nothing
  is collapsed.  \<open>statusset add\<close> changes nothing when the channel is already in the
  stored list of the guild (and says so, for a valid service and a channel it may write
  to), so it keeps the lists of a guild free of duplicates.
\<close>

theorem get_channels_concatenates_stored_destinations:
  "get_channels w service
     = concat (map (\<lambda>server. stored_destinations (snd server) service) (guilds w)) \<and>
   (feeds (py_lower service0) = Some (ChanList l) \<and> tc_id channel \<in> set l \<longrightarrow>
      snd (statusset_add service0 channel feeds) = feeds \<and>
      (py_lower service0 \<in> set (map fst FEED_URLS) \<and> tc_send_messages channel \<and>
       tc_embed_links channel \<longrightarrow>
         fst (statusset_add service0 channel feeds)
           = Inr (AlreadyReceives (tc_id channel) (py_lower service0)))) \<and>
   ((\<forall>s l. feeds s = Some (ChanList l) \<longrightarrow> distinct l) \<longrightarrow>
      (\<forall>s l. snd (statusset_add service0 channel feeds) s = Some (ChanList l) \<longrightarrow> distinct l))"
proof (intro conjI impI allI)
  show "get_channels w service
     = concat (map (\<lambda>server. stored_destinations (snd server) service) (guilds w))"
    by (simp add: get_channels_def get_channels_loop_concat)
next
  assume "feeds (py_lower service0) = Some (ChanList l) \<and> tc_id channel \<in> set l"
  then show "snd (statusset_add service0 channel feeds) = feeds"
    using statusset_add_present[of feeds service0 l channel] by simp
next
  assume "feeds (py_lower service0) = Some (ChanList l) \<and> tc_id channel \<in> set l"
    and "py_lower service0 \<in> set (map fst FEED_URLS) \<and> tc_send_messages channel \<and>
       tc_embed_links channel"
  then show "fst (statusset_add service0 channel feeds)
           = Inr (AlreadyReceives (tc_id channel) (py_lower service0))"
    using statusset_add_present[of feeds service0 l channel] by simp
next
  fix s l'
  assume "\<forall>s l. feeds s = Some (ChanList l) \<longrightarrow> distinct l"
    and "snd (statusset_add service0 channel feeds) s = Some (ChanList l')"
  then show "distinct l'" by (rule statusset_add_distinct)
qed

theorem get_channels_concatenates_stored_destinations_witness:
  "get_channels world0 ''discord'' = [1, 2, 3] \<and>
   feeds_list (py_lower ''GitHub'') = Some (ChanList [1, 2, 3]) \<and> tc_id channel2 \<in> set [1, 2, 3] \<and>
   statusset_add ''GitHub'' channel2 feeds_list = (Inr (AlreadyReceives 2 ''github''), feeds_list) \<and>
   snd (statusset_add ''GitHub'' channel7 feeds_list) ''github'' = Some (ChanList [1, 2, 3, 7]) \<and>
   distinct [1, 2, 3, 7 :: int]"
proof -
  note inst = get_channels_concatenates_stored_destinations
                [of world0 "''discord''" feeds_list "''GitHub''" "[1, 2, 3]" channel2]
  have g: "get_channels world0 ''discord'' = [1, 2, 3]"
    using inst by (simp add: world0_def stored_destinations_def)
  have lo: "py_lower ''GitHub'' = ''github''" by (simp add: py_lower_def lower_char_def)
  have f: "feeds_list (py_lower ''GitHub'') = Some (ChanList [1, 2, 3])"
    by (simp add: lo feeds_list_def)
  have m: "tc_id channel2 \<in> set [1, 2, 3]" by (simp add: channel2_def)
  have v: "py_lower ''GitHub'' \<in> set (map fst FEED_URLS) \<and> tc_send_messages channel2 \<and>
           tc_embed_links channel2"
    by (simp add: lo FEED_URLS_def channel2_def)
  from inst f m v have "snd (statusset_add ''GitHub'' channel2 feeds_list) = feeds_list"
    and "fst (statusset_add ''GitHub'' channel2 feeds_list)
           = Inr (AlreadyReceives (tc_id channel2) (py_lower ''GitHub''))"
    by blast+
  then have a: "statusset_add ''GitHub'' channel2 feeds_list
                  = (Inr (AlreadyReceives 2 ''github''), feeds_list)"
    by (simp add: prod_eq_iff lo channel2_def)
  have b: "snd (statusset_add ''GitHub'' channel7 feeds_list) ''github'' = Some (ChanList [1, 2, 3, 7])"
    by (simp add: statusset_add_def Let_def lo FEED_URLS_def channel7_def feeds_list_def)
  have d: "distinct [1, 2, 3, 7 :: int]" by simp
  from g f m a b d show ?thesis by (intro conjI)
qed

text \<open>
  The claim as stated fails when two guilds store the same channel id: the id is in the
  result twice.
\<close>

theorem get_channels_keeps_duplicates_counterexample:
  "get_channels world_two_guilds ''github'' = [5, 5] \<and>
   \<not> distinct (get_channels world_two_guilds ''github'')"
  by (simp add: get_channels_def world_two_guilds_def)


end
